theory Spec2Isabelle
  imports Main "HOL-Library.Sublist"
begin

section \<open>Quick Export Collection: the scene model\<close>

text \<open>
  The add-on works on Blender's collection hierarchy. A \<open>Collection\<close> has a name and
  child collections; Python compares collections by identity, which is the \<open>ptr\<close> field
  here. A \<open>LayerCollection\<close> wraps a collection for one view layer and carries the
  \<open>exclude\<close> flag; its name is the name of the wrapped collection.
\<close>

datatype collection =
  Collection (ptr: nat) (name: string) (children: "collection list")

datatype layer_collection =
  LayerCollection (collection: collection) (exclude: bool) (lc_children: "layer_collection list")

section \<open>Marking excluded collections\<close>

text \<open>
  \<open>set_excluded_collections\<close> walks the layer collections outer to inner. It never assigns
  the flag of the node it is called on, only the flags of that node's children, and then
  recurses into each child. The Python mutates the tree in place; the model returns the
  new tree. The loop over \<open>lc.children\<close> is \<open>set_excluded_children\<close>. An assignment to
  \<open>exclude\<close> is a write of that one field: whatever the host does to the flags below the
  assigned node is overwritten by the recursive call that follows the assignment.
\<close>

fun set_excluded_collections ::
    "layer_collection \<Rightarrow> string list \<Rightarrow> collection \<Rightarrow> bool \<Rightarrow> bool \<Rightarrow> layer_collection"
  and set_excluded_children ::
    "layer_collection list \<Rightarrow> string list \<Rightarrow> collection \<Rightarrow> bool \<Rightarrow> bool \<Rightarrow> layer_collection list"
where
  "set_excluded_collections (LayerCollection c e cs) collection_names_not_exportable
       collection_to_export within_collection_to_export within_nonexportable =
     (let within_collection_to_export' =
            (if ptr c = ptr collection_to_export then True else within_collection_to_export)
      in LayerCollection c e
           (set_excluded_children cs collection_names_not_exportable collection_to_export
              within_collection_to_export' within_nonexportable))"
| "set_excluded_children [] collection_names_not_exportable collection_to_export
       within_collection_to_export within_nonexportable = []"
| "set_excluded_children (LayerCollection c e cs # rest) collection_names_not_exportable
       collection_to_export within_collection_to_export within_nonexportable =
     (if ptr c = ptr collection_to_export then
        set_excluded_collections (LayerCollection c False cs)
          collection_names_not_exportable collection_to_export True False
      else if within_collection_to_export then
        (let tmp_wne =
               (if \<not> within_nonexportable then
                  (if name c \<in> set collection_names_not_exportable then True
                   else within_nonexportable)
                else within_nonexportable)
         in set_excluded_collections (LayerCollection c tmp_wne cs)
              collection_names_not_exportable collection_to_export True tmp_wne)
      else
        set_excluded_collections (LayerCollection c True cs)
          collection_names_not_exportable collection_to_export False False)
     # set_excluded_children rest collection_names_not_exportable collection_to_export
         within_collection_to_export within_nonexportable"

section \<open>Planning the mesh joins\<close>

text \<open>
  \<open>find_topmost_collections\<close> searches from a collection downwards and stops at the first
  collection on each branch whose name is in the given list.
\<close>

fun find_topmost_collections :: "string list \<Rightarrow> collection \<Rightarrow> collection list" where
  "find_topmost_collections collection_names (Collection p n cs) =
     (if n \<in> set collection_names then [Collection p n cs]
      else concat (map (find_topmost_collections collection_names) cs))"

text \<open>
  Blender's \<open>children_recursive\<close>: every collection below a collection, the collection
  itself not included. \<open>nodes\<close> adds the collection itself.
\<close>

fun children_recursive :: "collection \<Rightarrow> collection list" where
  "children_recursive (Collection p n cs) = concat (map (\<lambda>c. c # children_recursive c) cs)"

definition nodes :: "collection \<Rightarrow> collection list" where
  "nodes c = c # children_recursive c"

section \<open>The exporter registry\<close>

text \<open>
  The properties of a Blender operator are pairs of a name and a property description.
  The add-on looks at the type of a property only, and for an enumeration at its items
  and at whether it is a flag set.
\<close>

datatype property =
    BoolProperty
  | StringProperty
  | FloatProperty
  | IntProperty
  | EnumProperty (enum_items: "string list") (is_enum_flag: bool)
  | OtherProperty

definition get_properties_for_op :: "(string \<times> property) list \<Rightarrow> (string \<times> property) list" where
  "get_properties_for_op prop_iter =
     (let skip = [''rna_type'', ''filepath'', ''filter_glob'', ''use_active_collection'',
                  ''use_selection'', ''batch_mode'']
      in filter (\<lambda>(k, v). k \<notin> set skip) prop_iter)"

text \<open>
  \<open>EXPORTERS\<close> has the one entry \<open>fbx\<close>. The operator behind it belongs to the host; what
  the registry needs of it is its property list, the parameter \<open>fbx\<close> here.
\<close>

definition EXPORTERS :: "(string \<times> property) list \<Rightarrow> (string \<times> (string \<times> property) list) list" where
  "EXPORTERS fbx = [(''fbx'', fbx)]"

definition EXPORTER_PROPERTIES ::
    "(string \<times> property) list \<Rightarrow> (string \<times> (string \<times> property) list) list" where
  "EXPORTER_PROPERTIES fbx = map (\<lambda>(k, v). (k, get_properties_for_op v)) (EXPORTERS fbx)"

text \<open>
  Python's \<open>x in l\<close> on a list compares \<open>x\<close> with every element of \<open>l\<close>. The operator
  asks whether a string is in a list whose elements are tuples, so the comparison is
  between values of different Python types: \<open>pyobj\<close> holds both kinds, and a string is
  equal to a string only.
\<close>

datatype pyobj = PyStr string | PyTuple string property

definition str_in_property_list :: "string \<Rightarrow> (string \<times> property) list \<Rightarrow> bool" where
  "str_in_property_list s l = (PyStr s \<in> set (map (\<lambda>(k, v). PyTuple k v) l))"

section \<open>Python values, the host state and the host services\<close>

text \<open>
  The values of exporter arguments. A Python float is kept abstract: the add-on only
  passes it on.
\<close>

typedecl pyfloat

datatype pyval = PBool bool | PStr string | PFloat pyfloat | PInt int | PSet "string list"

text \<open>
  Exceptions. Every raise of the source is a value \<open>Inl e\<close> or \<open>Some e\<close> of the model;
  the state reached when the exception is raised is returned with it, since the Python
  has mutated the scene by then.
\<close>

datatype exn =
    RuntimeError string
  | ValueError
  | ConfigParserError
  | InterpolationSyntaxError
  | InterpolationMissingOptionError
  | InterpolationDepthError
  | UnboundLocalError
  | KeyError
  | IndexError
  | HostError string

text \<open>
  \<open>ident\<close> names what carries the global flags \<open>hide_select\<close> and \<open>hide_viewport\<close>: an
  object or a collection (by its \<open>ptr\<close>). A parsed configuration has the keys of the
  \<open>DEFAULT\<close> section and, in the order of the file, the sections with their own keys.
\<close>

datatype ident = Ob nat | Co nat

record config =
  defaults :: "(string \<times> string) list"
  sections :: "(string \<times> (string \<times> string) list) list"

datatype status = FINISHED | CANCELLED

text \<open>
  \<open>blend\<close> is the part of Blender's state the operator reads or writes: the text blocks,
  the reports made with \<open>self.report\<close>, the objects with their names, types and the
  collections they are linked to, the global flags, the collection hierarchy, the view
  layers with their layer collections, selection and active object, and the calls of the
  export operator made so far, each with its arguments and the selection it found.
\<close>

record blend =
  texts :: "string \<rightharpoonup> string"
  is_saved :: bool
  reports :: "(string \<times> string) list"
  objects :: "nat list"
  obj_name :: "nat \<Rightarrow> string"
  obj_data_name :: "nat \<Rightarrow> string"
  obj_type :: "nat \<Rightarrow> string"
  users_collection :: "nat \<Rightarrow> nat list"
  hide_select :: "ident \<Rightarrow> bool"
  hide_viewport :: "ident \<Rightarrow> bool"
  scene_collection :: collection
  view_layers :: "nat list"
  window_view_layer :: nat
  layer_collections :: "nat \<Rightarrow> layer_collection"
  selected_objects :: "nat \<Rightarrow> nat list"
  active_object :: "nat \<Rightarrow> nat option"
  export_calls :: "((string \<rightharpoonup> pyval) \<times> nat list) list"

definition CONFIG_FILE_NAME :: string where
  "CONFIG_FILE_NAME = ''QuickExportCollectionConfig''"

text \<open>The quote characters and the newline, for the texts below.\<close>

definition sq :: string where "sq = [CHR 0x27]"
definition dq :: string where "dq = [CHR 0x22]"
definition nl :: string where "nl = [CHR 0x0A]"

definition report :: "string \<Rightarrow> string \<Rightarrow> blend \<Rightarrow> blend" where
  "report level msg st = st\<lparr>reports := reports st @ [(level, msg)]\<rparr>"

text \<open>
  A character of the model is a code point below 256. \<open>str.isspace\<close> and \<open>str.lower\<close>
  on these: the blanks are the ASCII ones, \<open>NEL\<close> and the no-break space, and the
  letters with a lower case are the ASCII capitals and the capitals of Latin-1.
\<close>

definition isspace :: "string \<Rightarrow> bool" where
  "isspace s = (s \<noteq> [] \<and>
     list_all (\<lambda>c. c \<in> set [CHR 0x09, CHR 0x0A, CHR 0x0B, CHR 0x0C, CHR 0x0D,
                            CHR 0x1C, CHR 0x1D, CHR 0x1E, CHR 0x1F, CHR 0x20,
                            CHR 0x85, CHR 0xA0]) s)"

definition upper_chars :: string where
  "upper_chars =
     ''ABCDEFGHIJKLMNOPQRSTUVWXYZ'' @
     [CHR 0xC0, CHR 0xC1, CHR 0xC2, CHR 0xC3, CHR 0xC4, CHR 0xC5, CHR 0xC6, CHR 0xC7,
      CHR 0xC8, CHR 0xC9, CHR 0xCA, CHR 0xCB, CHR 0xCC, CHR 0xCD, CHR 0xCE, CHR 0xCF,
      CHR 0xD0, CHR 0xD1, CHR 0xD2, CHR 0xD3, CHR 0xD4, CHR 0xD5, CHR 0xD6,
      CHR 0xD8, CHR 0xD9, CHR 0xDA, CHR 0xDB, CHR 0xDC, CHR 0xDD, CHR 0xDE]"

definition lower_chars :: string where
  "lower_chars =
     ''abcdefghijklmnopqrstuvwxyz'' @
     [CHR 0xE0, CHR 0xE1, CHR 0xE2, CHR 0xE3, CHR 0xE4, CHR 0xE5, CHR 0xE6, CHR 0xE7,
      CHR 0xE8, CHR 0xE9, CHR 0xEA, CHR 0xEB, CHR 0xEC, CHR 0xED, CHR 0xEE, CHR 0xEF,
      CHR 0xF0, CHR 0xF1, CHR 0xF2, CHR 0xF3, CHR 0xF4, CHR 0xF5, CHR 0xF6,
      CHR 0xF8, CHR 0xF9, CHR 0xFA, CHR 0xFB, CHR 0xFC, CHR 0xFD, CHR 0xFE]"

definition lower_char :: "char \<Rightarrow> char" where
  "lower_char c = (case map_of (zip upper_chars lower_chars) c of Some d \<Rightarrow> d | None \<Rightarrow> c)"

definition lower :: "string \<Rightarrow> string" where
  "lower s = map lower_char s"

text \<open>
  The services of the host and of the Python library, as parameters. An operator of the
  host either raises or returns a status; what it does to the scene when it finishes is
  modelled further down. \<open>join\<close> also says which of the selected objects are left when
  it finishes. \<open>new_layer_selection\<close> is the selection a new view layer starts with.
  The host keeps names unique and bounded in length: \<open>unique_name h st ob n\<close> is the name
  object \<open>ob\<close> gets when it is assigned the name \<open>n\<close>, and \<open>unique_data_name\<close> the same
  for its mesh data. Any other call into the host may raise as well: \<open>raises h p st\<close> is the
  exception the host raises at program point \<open>p\<close> in state \<open>st\<close>, if any.
\<close>

datatype point =
    MarkExcluded | RelaxProperties | SelectObjects | SetActive | Rename | Deselect | Reselect

record host =
  fbx_properties :: "(string \<times> property) list"
  read_string :: "string \<Rightarrow> exn + config"
  parse_float :: "string \<Rightarrow> pyfloat option"
  parse_int :: "string \<Rightarrow> int option"
  repr_options :: "string list \<Rightarrow> string"
  abspath :: "string \<Rightarrow> string"
  native_pathsep :: "string \<Rightarrow> string"
  normpath :: "string \<Rightarrow> string"
  isdir :: "string \<Rightarrow> bool"
  ensure_ext :: "string \<Rightarrow> string \<Rightarrow> string"
  joinpath :: "string \<Rightarrow> string \<Rightarrow> string"
  visible_get :: "blend \<Rightarrow> nat \<Rightarrow> bool"
  view_layer_add :: "blend \<Rightarrow> exn + status"
  new_layer_selection :: "blend \<Rightarrow> nat list"
  duplicate :: "blend \<Rightarrow> exn + status"
  join :: "blend \<Rightarrow> exn + status \<times> nat list"
  export_func :: "(string \<rightharpoonup> pyval) \<Rightarrow> blend \<Rightarrow> exn + status"
  str_of :: "pyval \<Rightarrow> string"
  float_nonzero :: "pyfloat \<Rightarrow> bool"
  repr_objects :: "nat list \<Rightarrow> string"
  unique_name :: "blend \<Rightarrow> nat \<Rightarrow> string \<Rightarrow> string"
  unique_data_name :: "blend \<Rightarrow> nat \<Rightarrow> string \<Rightarrow> string"
  raises :: "point \<Rightarrow> blend \<Rightarrow> exn option"

subsection \<open>The configuration parser\<close>

text \<open>
  \<open>configparser\<close> as far as the operator uses it: \<open>has_section\<close> does not know the
  default section, \<open>add_section\<close> refuses its name, a lookup in a section falls back to
  the default section, keys are lower case, and \<open>getboolean\<close> accepts the eight words of
  \<open>BOOLEAN_STATES\<close> in any case. A lookup returns \<open>None\<close> where the key is missing; the
  caller supplies the fallback.

  \<open>ConfigParser.get\<close> interpolates the value it finds (\<open>BasicInterpolation\<close>): \<open>%%\<close>
  stands for a percent sign, \<open>%(key)s\<close> for the value of \<open>key\<close> in the same section or
  the default section, itself interpolated, and any other use of \<open>%\<close> raises. \<open>cfg_raw\<close> is
  the lookup without interpolation, \<open>match_key\<close> the regular expression \<open>%\(([^)]+)\)s\<close>
  applied after the two characters \<open>%(\<close>, and \<open>interpolate_some\<close> the method
  \<open>_interpolate_some\<close>, whose depth starts at 1.
\<close>

definition empty_config :: config where
  "empty_config = \<lparr>defaults = [], sections = []\<rparr>"

definition has_section :: "config \<Rightarrow> string \<Rightarrow> bool" where
  "has_section cfg s = (s \<in> fst ` set (sections cfg))"

definition add_section :: "config \<Rightarrow> string \<Rightarrow> exn + config" where
  "add_section cfg s =
     (if s = ''DEFAULT'' then Inl ValueError
      else if has_section cfg s then Inl ConfigParserError
      else Inr (cfg\<lparr>sections := sections cfg @ [(s, [])]\<rparr>))"

definition cfg_map :: "config \<Rightarrow> string \<Rightarrow> (string \<rightharpoonup> string)" where
  "cfg_map cfg sec =
     (case map_of (sections cfg) sec of
        None \<Rightarrow> Map.empty
      | Some kv \<Rightarrow>
          (\<lambda>k. case map_of kv k of
                 Some v \<Rightarrow> Some v
               | None \<Rightarrow> map_of (defaults cfg) k))"

definition cfg_raw :: "config \<Rightarrow> string \<Rightarrow> string \<Rightarrow> string option" where
  "cfg_raw cfg sec opt = cfg_map cfg sec (lower opt)"

definition MAX_INTERPOLATION_DEPTH :: nat where
  "MAX_INTERPOLATION_DEPTH = 10"

definition match_key :: "string \<Rightarrow> (string \<times> string) option" where
  "match_key rest =
     (let var = takeWhile (\<lambda>c. c \<noteq> CHR '')'') rest;
          after = dropWhile (\<lambda>c. c \<noteq> CHR '')'') rest
      in if var \<noteq> [] \<and> take 2 after = '')s'' then Some (var, drop 2 after) else None)"

function interpolate_some :: "(string \<rightharpoonup> string) \<Rightarrow> nat \<Rightarrow> string \<Rightarrow> exn + string" where
  "interpolate_some m depth [] = Inr []"
| "interpolate_some m depth (c # rest) =
     (if c \<noteq> CHR ''%'' then map_sum id ((#) c) (interpolate_some m depth rest)
      else
        (case rest of
           [] \<Rightarrow> Inl InterpolationSyntaxError
         | d # rest1 \<Rightarrow>
             if d = CHR ''%'' then map_sum id ((#) CHR ''%'') (interpolate_some m depth rest1)
             else if d = CHR ''('' then
               (case match_key rest1 of
                  None \<Rightarrow> Inl InterpolationSyntaxError
                | Some (var, rest2) \<Rightarrow>
                    (case m (lower var) of
                       None \<Rightarrow> Inl InterpolationMissingOptionError
                     | Some v \<Rightarrow>
                         (case (if CHR ''%'' \<in> set v then
                                  (if depth + 1 > MAX_INTERPOLATION_DEPTH
                                   then Inl InterpolationDepthError
                                   else interpolate_some m (depth + 1) v)
                                else Inr v) of
                            Inl e \<Rightarrow> Inl e
                          | Inr s \<Rightarrow> map_sum id ((@) s) (interpolate_some m depth rest2))))
             else Inl InterpolationSyntaxError))"
  by pat_completeness auto
termination
proof -
  have shorter: "length rest' < length rest" if "match_key rest = Some (var, rest')"
    for rest var rest'
  proof -
    let ?after = "dropWhile (\<lambda>c. c \<noteq> CHR '')'') rest"
    from that have t: "take 2 ?after = '')s''" and r: "rest' = drop 2 ?after"
      by (auto simp: match_key_def Let_def split: if_splits)
    have "?after \<noteq> []"
    proof
      assume "?after = []"
      with t show False by simp
    qed
    then have "length rest' < length ?after" unfolding r by simp
    also have "\<dots> \<le> length rest" by (rule length_dropWhile_le)
    finally show ?thesis .
  qed
  show ?thesis
    by (relation "measures [\<lambda>(m, depth, rest). Suc MAX_INTERPOLATION_DEPTH - depth,
                            \<lambda>(m, depth, rest). length rest]")
       (auto dest: shorter)
qed

definition cfg_get :: "config \<Rightarrow> string \<Rightarrow> string \<Rightarrow> exn + string option" where
  "cfg_get cfg sec opt =
     (case cfg_raw cfg sec opt of
        None \<Rightarrow> Inr None
      | Some v \<Rightarrow> map_sum id Some (interpolate_some (cfg_map cfg sec) 1 v))"

definition BOOLEAN_STATES :: "(string \<times> bool) list" where
  "BOOLEAN_STATES =
     [(''1'', True), (''yes'', True), (''true'', True), (''on'', True),
      (''0'', False), (''no'', False), (''false'', False), (''off'', False)]"

definition getboolean :: "config \<Rightarrow> string \<Rightarrow> string \<Rightarrow> exn + bool option" where
  "getboolean cfg sec opt =
     (case cfg_get cfg sec opt of
        Inl e \<Rightarrow> Inl e
      | Inr None \<Rightarrow> Inr None
      | Inr (Some v) \<Rightarrow>
          (case map_of BOOLEAN_STATES (lower v) of
             None \<Rightarrow> Inl ValueError
           | Some b \<Rightarrow> Inr (Some b)))"

definition getfloat :: "host \<Rightarrow> config \<Rightarrow> string \<Rightarrow> string \<Rightarrow> exn + pyfloat option" where
  "getfloat h cfg sec opt =
     (case cfg_get cfg sec opt of
        Inl e \<Rightarrow> Inl e
      | Inr None \<Rightarrow> Inr None
      | Inr (Some v) \<Rightarrow>
          (case parse_float h v of None \<Rightarrow> Inl ValueError | Some f \<Rightarrow> Inr (Some f)))"

definition getint :: "host \<Rightarrow> config \<Rightarrow> string \<Rightarrow> string \<Rightarrow> exn + int option" where
  "getint h cfg sec opt =
     (case cfg_get cfg sec opt of
        Inl e \<Rightarrow> Inl e
      | Inr None \<Rightarrow> Inr None
      | Inr (Some v) \<Rightarrow>
          (case parse_int h v of None \<Rightarrow> Inl ValueError | Some n \<Rightarrow> Inr (Some n)))"

fun split_comma :: "string \<Rightarrow> string list" where
  "split_comma [] = [[]]"
| "split_comma (c # cs) =
     (if c = CHR '','' then [] # split_comma cs
      else (case split_comma cs of w # ws \<Rightarrow> (c # w) # ws | [] \<Rightarrow> [[c]]))"

subsection \<open>Exporter arguments from the configuration\<close>

text \<open>
  \<open>get_exporter_args_from_config\<close> loops over the configurable properties of the
  exporter. The variable \<open>val\<close> lives across iterations: it is unbound before the first
  assignment (\<open>None\<close> here), and a property of a type the loop does not know leaves it as
  the previous iteration set it. One iteration either goes on with a new \<open>val\<close>, reports
  an error and makes the function return \<open>None\<close>, or raises.
\<close>

datatype 'a step = Continue 'a | ReturnNone string | Raise exn

definition invalid_value :: "string \<Rightarrow> string \<Rightarrow> string" where
  "invalid_value prop_name expected =
     ''Invalid value for config property '' @ sq @ prop_name @ sq @ '', should be '' @ expected"

definition read_property ::
    "host \<Rightarrow> config \<Rightarrow> string \<Rightarrow> string \<Rightarrow> property \<Rightarrow> pyval option option
      \<Rightarrow> pyval option option step" where
  "read_property h config_section sec prop_name prop val =
     (case prop of
        BoolProperty \<Rightarrow>
          (case getboolean config_section sec prop_name of
             Inl e \<Rightarrow>
               (if e = ValueError then ReturnNone (invalid_value prop_name ''a boolean'')
                else Raise e)
           | Inr b \<Rightarrow> Continue (Some (map_option PBool b)))
      | StringProperty \<Rightarrow>
          (case cfg_get config_section sec prop_name of
             Inl e \<Rightarrow> Raise e
           | Inr v \<Rightarrow> Continue (Some (map_option PStr v)))
      | FloatProperty \<Rightarrow>
          (case getfloat h config_section sec prop_name of
             Inl e \<Rightarrow>
               (if e = ValueError then ReturnNone (invalid_value prop_name ''a number'')
                else Raise e)
           | Inr f \<Rightarrow> Continue (Some (map_option PFloat f)))
      | IntProperty \<Rightarrow>
          (case getint h config_section sec prop_name of
             Inl e \<Rightarrow>
               (if e = ValueError
                then ReturnNone (invalid_value prop_name ''an integer (whole number)'')
                else Raise e)
           | Inr n \<Rightarrow> Continue (Some (map_option PInt n)))
      | EnumProperty items flag \<Rightarrow>
          (case cfg_get config_section sec prop_name of
             Inl e \<Rightarrow> Raise e
           | Inr None \<Rightarrow> Continue (Some None)
           | Inr (Some v) \<Rightarrow>
               (let options = remdups items in
                if flag then
                  (let vs = remdups (split_comma v) in
                   if list_all (\<lambda>x. x \<in> set options) vs then Continue (Some (Some (PSet vs)))
                   else ReturnNone (invalid_value prop_name
                          (''a comma-separated list out of '' @ repr_options h options)))
                else if v \<in> set options then Continue (Some (Some (PStr v)))
                else ReturnNone (invalid_value prop_name
                       (''one of '' @ repr_options h options))))
      | OtherProperty \<Rightarrow> Continue val)"

fun exporter_args_loop ::
    "host \<Rightarrow> config \<Rightarrow> string \<Rightarrow> (string \<times> property) list \<Rightarrow> pyval option option
      \<Rightarrow> (string \<rightharpoonup> pyval) \<Rightarrow> blend \<Rightarrow> (exn + (string \<rightharpoonup> pyval) option) \<times> blend" where
  "exporter_args_loop h config_section sec [] val args st = (Inr (Some args), st)"
| "exporter_args_loop h config_section sec ((prop_name, prop) # rest) val args st =
     (case read_property h config_section sec prop_name prop val of
        Raise e \<Rightarrow> (Inl e, st)
      | ReturnNone msg \<Rightarrow> (Inr None, report ''ERROR'' msg st)
      | Continue val' \<Rightarrow>
          (case val' of
             None \<Rightarrow> (Inl UnboundLocalError, st)
           | Some None \<Rightarrow> exporter_args_loop h config_section sec rest val' args st
           | Some (Some v) \<Rightarrow>
               exporter_args_loop h config_section sec rest val' (args(prop_name \<mapsto> v)) st))"

definition get_exporter_args_from_config ::
    "host \<Rightarrow> string \<Rightarrow> config \<Rightarrow> string \<Rightarrow> blend \<Rightarrow> (exn + (string \<rightharpoonup> pyval) option) \<times> blend" where
  "get_exporter_args_from_config h exporter config_section sec st =
     (case map_of (EXPORTER_PROPERTIES (fbx_properties h)) exporter of
        None \<Rightarrow> (Inl KeyError, st)
      | Some props \<Rightarrow> exporter_args_loop h config_section sec props None Map.empty st)"

subsection \<open>Writing the configuration text\<close>

text \<open>
  The text of a new configuration file, and of a section appended to an existing one.
\<close>

definition new_config_text :: "string \<Rightarrow> string \<Rightarrow> string" where
  "new_config_text collection_name filename =
     concat (map (\<lambda>l. l @ nl)
     ([''# Settings file for Quick Export Collection addon.'',
      ''#'',
      ''# Each [section] header below indicates configuration for one Collection.'',
      ''# The [DEFAULT] section is special; it provides defaults for any options'',
      ''# not specified in another section.'',
      ''#'',
      ''# The supported options are:'',
      ''#   exporter         - Which model format to export with. Can be changed'',
      ''#                      per-collection but usually goes in [DEFAULT].'',
      ''#                      Currently the only supported exporter is '' @ sq @ ''fbx'' @ sq @ ''.'',
      ''#   directory        - The location files are exported to. Usually goes in'',
      ''#                      the [DEFAULT] section. Start the path with // to'',
      ''#                      indicate a path relative to this .blend file. Example:'',
      ''#                        directory = //../Assets/Models'',
      ''#                      If unspecified, the default is // .'',
      ''#   filename         - The output filename. If no extension is specified, the'',
      ''#                      default extension for the exporter (eg. '' @ sq @ ''.fbx'' @ sq @ '') is used.'',
      ''#                      If unspecified, the collection'' @ sq @ ''s name is used.'',
      ''#   exportable       - If set to False, the collection cannot be exported,'',
      ''#                      and it will not be included included when exporting'',
      ''#                      a parent collection. If unspecified, defaults to True.'',
      ''#   join_meshes      - If set to True, all meshes in this collection will be'',
      ''#                      merged/joined into one during export. It even applies'',
      ''#                      when exported as a sub-collection of another export.'',
      ''#   joined_mesh_name - When join_meshes is True, this specifies the name of'',
      ''#                      the combined mesh in the export. If not specified, the'',
      ''#                      name of the collection is used.'',
      ''#   use_visible      - If True, only export visible objects. Unlike join_meshes,'',
      ''#                      this applies to the whole export, not just the collections'',
      ''#                      it'' @ sq @ ''s specified on. If not specified, defaults to False.'',
      ''# Additionally, any options supported by the exporter can be specified.'',
      ''# For example, the fbx exporter supports the options '' @ sq @ ''object_types'' @ sq @ '','',
      ''# '' @ sq @ ''use_triangles'' @ sq @ '', '' @ sq @ ''embed_textures'' @ sq @ '', and more.'' @ dq,
      '''',
      ''[DEFAULT]'',
      ''exporter = fbx'',
      ''directory = //'',
      '''',
      ''['' @ collection_name @ '']'',
      ''filename = '' @ filename]))"

definition make_new_config_file :: "string \<Rightarrow> string \<Rightarrow> blend \<Rightarrow> blend" where
  "make_new_config_file collection_name filename st =
     (let st' = (if CONFIG_FILE_NAME \<notin> dom (texts st)
                 then st\<lparr>texts := (texts st)(CONFIG_FILE_NAME \<mapsto> [])\<rparr> else st)
      in st'\<lparr>texts := (texts st')(CONFIG_FILE_NAME \<mapsto> new_config_text collection_name filename)\<rparr>)"

definition new_section_text :: "string \<Rightarrow> string \<Rightarrow> string" where
  "new_section_text collection_name filename =
     nl @ ''['' @ collection_name @ '']'' @ nl @ ''filename = '' @ filename @ nl"

definition append_new_section_to_config_file :: "string \<Rightarrow> string \<Rightarrow> blend \<Rightarrow> exn + blend" where
  "append_new_section_to_config_file collection_name filename st =
     (case texts st CONFIG_FILE_NAME of
        None \<Rightarrow> Inl KeyError
      | Some text \<Rightarrow>
          (let text1 = (if drop (length text - 1) text \<noteq> nl then text @ nl else text);
               text2 = text1 @ new_section_text collection_name filename
           in Inr (st\<lparr>texts := (texts st)(CONFIG_FILE_NAME \<mapsto> text2)\<rparr>)))"


subsection \<open>Reading the export settings\<close>

text \<open>
  The messages of \<open>get_export_settings\<close>, then the function in the order of the source:
  load the text, make sure the section exists, check \<open>exportable\<close> and the exporter, read
  file name and directory, write the file or the section when either was missing, and only
  then resolve the directory, the exporter arguments and the lists for the whole tree.
\<close>

definition bs :: string where "bs = [CHR 0x5C]"

definition msg_unexportable :: "string \<Rightarrow> string" where
  "msg_unexportable collection_name =
     sq @ collection_name @ sq @ '' is marked unexportable in config. (The config file '' @
     CONFIG_FILE_NAME @ '' can be found in the Text Edtior window.)''"

definition msg_unknown_exporter :: "string \<Rightarrow> string \<Rightarrow> string" where
  "msg_unknown_exporter exporter_name collection_name =
     ''Unknown/unsupported exporter '' @ sq @ exporter_name @ sq @ '' for collection '' @ sq @
     collection_name @ sq @ ''. Please adjust it in the config file '' @ CONFIG_FILE_NAME @
     '', which is found in the Text Edtior window.''"

definition msg_dir_prefix :: "string \<Rightarrow> string" where
  "msg_dir_prefix start =
     ''Export directory starts with '' @ dq @ start @ dq @
     '', but in Blender the way to refer to a path relative to the blend file is with the prefix '' @
     dq @ ''//'' @ dq @ ''. Using that instead.''"

definition msg_dir_dot :: string where
  "msg_dir_dot =
     ''Export directory is '' @ dq @ ''.'' @ dq @
     '', but in Blender the way to refer to a path relative to the blend file is with '' @
     dq @ ''//'' @ dq @ ''. Using that instead.''"

definition msg_first_export_no_file :: string where
  "msg_first_export_no_file =
     ''[FIRST EXPORT NOTICE!] No config file was present, so one has been created '' @
     ''automatically. Go to the Text Edtior window and open '' @ CONFIG_FILE_NAME @
     '' to review it, make changes as necessary, then try exporting again.''"

definition msg_first_export_no_section :: "string \<Rightarrow> string" where
  "msg_first_export_no_section collection_name =
     ''[FIRST EXPORT NOTICE!] This collection is not listed in the exporter config '' @
     ''file. A new section for '' @ sq @ collection_name @ sq @
     '' has been created automatically. Go to the Text Edtior window and open '' @
     CONFIG_FILE_NAME @ '' to review it, make changes as necessary, then try exporting again.''"

definition msg_not_saved :: "string \<Rightarrow> string" where
  "msg_not_saved export_dir =
     ''Export directory '' @ sq @ export_dir @ sq @
     '' is relative to blend file, but the blend file is not saved. Please save first.''"

definition msg_no_directory :: "string \<Rightarrow> string" where
  "msg_no_directory export_dir =
     ''Export directory '' @ sq @ export_dir @ sq @ '' does not exist.''"

definition load_config :: "host \<Rightarrow> blend \<Rightarrow> exn + config \<times> bool" where
  "load_config h st =
     (case texts st CONFIG_FILE_NAME of
        Some txt \<Rightarrow>
          (if txt = [] \<or> isspace txt then Inr (empty_config, True)
           else (case read_string h txt of
                   Inl e \<Rightarrow> Inl e
                 | Inr config \<Rightarrow> Inr (config, False)))
      | None \<Rightarrow> Inr (empty_config, True))"

definition ensure_section :: "config \<Rightarrow> string \<Rightarrow> exn + config \<times> bool" where
  "ensure_section config collection_name =
     (if \<not> has_section config collection_name then
        (case add_section config collection_name of
           Inl e \<Rightarrow> Inl e
         | Inr config' \<Rightarrow> Inr (config', True))
      else Inr (config, False))"

definition normalize_export_dir :: "string \<Rightarrow> blend \<Rightarrow> string \<times> blend" where
  "normalize_export_dir export_dir st =
     (if take 2 export_dir = ''./'' \<or> take 2 export_dir = ''.'' @ bs then
        (''//'' @ drop 2 export_dir, report ''WARNING'' (msg_dir_prefix (take 2 export_dir)) st)
      else if export_dir = ''.'' then (''//'', report ''WARNING'' msg_dir_dot st)
      else (export_dir, st))"

fun scan_sections ::
    "config \<Rightarrow> string list \<Rightarrow> string list \<Rightarrow> string list \<Rightarrow> (string \<rightharpoonup> string)
      \<Rightarrow> exn + string list \<times> string list \<times> (string \<rightharpoonup> string)" where
  "scan_sections config [] collection_names_not_exportable collection_names_requesting_join
       collection_joined_mesh_names =
     Inr (collection_names_not_exportable, collection_names_requesting_join,
          collection_joined_mesh_names)"
| "scan_sections config (collection_name # rest) collection_names_not_exportable
       collection_names_requesting_join collection_joined_mesh_names =
     (case getboolean config collection_name ''exportable'' of
        Inl e \<Rightarrow> Inl e
      | Inr exportable \<Rightarrow>
          (let collection_names_not_exportable' =
                 (if \<not> (case exportable of None \<Rightarrow> True | Some b \<Rightarrow> b)
                  then collection_names_not_exportable @ [collection_name]
                  else collection_names_not_exportable)
           in (case getboolean config collection_name ''join_meshes'' of
                 Inl e \<Rightarrow> Inl e
               | Inr join_meshes \<Rightarrow>
                   (if (case join_meshes of None \<Rightarrow> False | Some b \<Rightarrow> b) then
                      (case cfg_get config collection_name ''joined_mesh_name'' of
                         Inl e \<Rightarrow> Inl e
                       | Inr joined_mesh_name \<Rightarrow>
                           scan_sections config rest collection_names_not_exportable'
                             (collection_names_requesting_join @ [collection_name])
                             (collection_joined_mesh_names(collection_name \<mapsto>
                                (case joined_mesh_name of
                                   None \<Rightarrow> collection_name
                                 | Some v \<Rightarrow> v))))
                    else
                      scan_sections config rest collection_names_not_exportable'
                        collection_names_requesting_join collection_joined_mesh_names))))"

definition sanitize_filename :: "string \<Rightarrow> string" where
  "sanitize_filename export_filename =
     map (\<lambda>c. if c \<in> set (bs @ ''/:*?'' @ dq @ sq @ ''<>|'') then CHR ''_'' else c)
       export_filename"

type_synonym export_settings =
  "string \<times> (string \<rightharpoonup> pyval) \<times> string list \<times> string list \<times> (string \<rightharpoonup> string)"

definition resolve_export_settings ::
    "host \<Rightarrow> config \<Rightarrow> string \<Rightarrow> string \<Rightarrow> string \<Rightarrow> string \<Rightarrow> blend
      \<Rightarrow> (exn + export_settings option) \<times> blend" where
  "resolve_export_settings h config collection_name exporter_name export_filename export_dir st =
     (if \<not> is_saved st \<and> take 2 export_dir = ''//'' then
        (Inr None, report ''ERROR'' (msg_not_saved export_dir) st)
      else
        (let export_dir' = normpath h (native_pathsep h (abspath h export_dir)) in
         if \<not> isdir h export_dir' then
           (Inr None, report ''ERROR'' (msg_no_directory export_dir') st)
         else
           (case get_exporter_args_from_config h exporter_name config collection_name st of
              (Inl e, st') \<Rightarrow> (Inl e, st')
            | (Inr None, st') \<Rightarrow> (Inr None, st')
            | (Inr (Some args), st') \<Rightarrow>
                (case scan_sections config (map fst (sections config)) [] [] Map.empty of
                   Inl e \<Rightarrow> (Inl e, st')
                 | Inr (collection_names_not_exportable, collection_names_requesting_join,
                        collection_joined_mesh_names) \<Rightarrow>
                     (let export_filename' =
                            sanitize_filename
                              (ensure_ext h export_filename (''.'' @ exporter_name));
                          args' = args(''filepath'' \<mapsto>
                                    PStr (joinpath h export_dir' export_filename'))
                      in (Inr (Some (exporter_name, args', collection_names_not_exportable,
                                     collection_names_requesting_join,
                                     collection_joined_mesh_names)), st'))))))"

definition get_export_settings ::
    "host \<Rightarrow> string \<Rightarrow> blend \<Rightarrow> (exn + export_settings option) \<times> blend" where
  "get_export_settings h collection_name st =
     (case load_config h st of
        Inl e \<Rightarrow> (Inl e, st)
      | Inr (config0, create_conf_file) \<Rightarrow>
     (case ensure_section config0 collection_name of
        Inl e \<Rightarrow> (Inl e, st)
      | Inr (config, append_section) \<Rightarrow>
     (case getboolean config collection_name ''exportable'' of
        Inl e \<Rightarrow> (Inl e, st)
      | Inr exportable \<Rightarrow>
     (if \<not> (case exportable of None \<Rightarrow> True | Some b \<Rightarrow> b) then
        (Inr None, report ''ERROR'' (msg_unexportable collection_name) st)
      else
     (case cfg_get config collection_name ''exporter'' of
        Inl e \<Rightarrow> (Inl e, st)
      | Inr exporter \<Rightarrow>
     (let exporter_name = (case exporter of None \<Rightarrow> ''fbx'' | Some v \<Rightarrow> v)
      in
      if exporter_name \<notin> fst ` set (EXPORTERS (fbx_properties h)) then
        (Inr None, report ''ERROR'' (msg_unknown_exporter exporter_name collection_name) st)
      else
     (case cfg_get config collection_name ''filename'' of
        Inl e \<Rightarrow> (Inl e, st)
      | Inr filename \<Rightarrow>
     (case cfg_get config collection_name ''directory'' of
        Inl e \<Rightarrow> (Inl e, st)
      | Inr directory \<Rightarrow>
     (let export_filename =
            (case filename of
               None \<Rightarrow> collection_name @ ''.'' @ exporter_name
             | Some v \<Rightarrow> v);
          export_dir0 = (case directory of None \<Rightarrow> ''//'' | Some v \<Rightarrow> v);
          (export_dir, st1) = normalize_export_dir export_dir0 st
      in
      if create_conf_file then
        (Inr None,
         report ''ERROR'' msg_first_export_no_file
           (make_new_config_file collection_name export_filename st1))
      else if append_section then
        (case append_new_section_to_config_file collection_name export_filename st1 of
           Inl e \<Rightarrow> (Inl e, st1)
         | Inr st2 \<Rightarrow>
             (Inr None, report ''ERROR'' (msg_first_export_no_section collection_name) st2))
      else
        resolve_export_settings h config collection_name exporter_name export_filename
          export_dir st1)))))))))"

section \<open>Objects, view layers and selection\<close>

text \<open>
  \<open>collection.all_objects\<close> are the objects linked to the collection or to one below it.
  The objects of a view layer are those linked to a collection that some layer collection
  of the view layer includes. Selection is per view layer; \<open>select_set\<close> acts on the view
  layer of the window and refuses to select an object that is not in it. Deselecting an
  object removes it from the selection, and there is nothing to remove when it is not in
  the view layer.
\<close>

definition all_objects :: "blend \<Rightarrow> collection \<Rightarrow> nat list" where
  "all_objects st c =
     filter (\<lambda>ob. \<exists>p \<in> set (users_collection st ob). p \<in> ptr ` set (nodes c)) (objects st)"

fun layer_nodes :: "layer_collection \<Rightarrow> layer_collection list" where
  "layer_nodes (LayerCollection c e cs) = LayerCollection c e cs # concat (map layer_nodes cs)"

definition view_layer_objects :: "blend \<Rightarrow> nat \<Rightarrow> nat list" where
  "view_layer_objects st vl =
     filter (\<lambda>ob. \<exists>n \<in> set (layer_nodes (layer_collections st vl)).
                    \<not> exclude n \<and> ptr (collection n) \<in> set (users_collection st ob))
       (objects st)"

definition context_selected_objects :: "blend \<Rightarrow> nat list" where
  "context_selected_objects st = selected_objects st (window_view_layer st)"

definition set_selection :: "nat list \<Rightarrow> blend \<Rightarrow> blend" where
  "set_selection sel st =
     st\<lparr>selected_objects := (selected_objects st)(window_view_layer st := sel)\<rparr>"

definition select_set :: "nat \<Rightarrow> bool \<Rightarrow> blend \<Rightarrow> exn + blend" where
  "select_set ob state st =
     (if state then
        (if ob \<notin> set (view_layer_objects st (window_view_layer st)) then
           Inl (RuntimeError ''Object can not be selected because it is not in View Layer'')
         else if ob \<in> set (context_selected_objects st) then Inr st
         else Inr (set_selection (context_selected_objects st @ [ob]) st))
      else Inr (set_selection (removeAll ob (context_selected_objects st)) st))"

fun select_each :: "nat list \<Rightarrow> bool \<Rightarrow> blend \<Rightarrow> exn option \<times> blend" where
  "select_each [] state st = (None, st)"
| "select_each (ob # rest) state st =
     (case select_set ob state st of
        Inl e \<Rightarrow> (Some e, st)
      | Inr st' \<Rightarrow> select_each rest state st')"

definition select_included_objects_in_collection ::
    "host \<Rightarrow> nat \<Rightarrow> collection \<Rightarrow> nat list \<Rightarrow> bool \<Rightarrow> blend \<Rightarrow> exn option \<times> blend" where
  "select_included_objects_in_collection h view_layer c hidden_objects mesh_only st =
     (case raises h SelectObjects st of
        Some e \<Rightarrow> (Some e, st)
      | None \<Rightarrow>
          (let st1 = set_selection [] st;
               objects_to_export =
                 filter (\<lambda>ob. ob \<in> set (view_layer_objects st1 view_layer) \<and>
                               ob \<notin> set hidden_objects)
                   (all_objects st1 c)
           in select_each
                (filter (\<lambda>ob. \<not> mesh_only \<or> obj_type st1 ob = ''MESH'') objects_to_export)
                True st1))"

section \<open>Saving and restoring the global properties\<close>

definition save_global_properties :: "blend \<Rightarrow> collection \<Rightarrow> (ident \<times> bool \<times> bool) list" where
  "save_global_properties st collection_to_export =
     map (\<lambda>ob. (Ob ob, hide_select st (Ob ob), hide_viewport st (Ob ob)))
       (filter (\<lambda>ob. hide_select st (Ob ob) \<or> hide_viewport st (Ob ob))
          (all_objects st collection_to_export)) @
     map (\<lambda>c. (Co (ptr c), hide_select st (Co (ptr c)), hide_viewport st (Co (ptr c))))
       (filter (\<lambda>c. hide_select st (Co (ptr c)) \<or> hide_viewport st (Co (ptr c)))
          (children_recursive (scene_collection st)))"

fun restore_global_properties :: "(ident \<times> bool \<times> bool) list \<Rightarrow> blend \<Rightarrow> blend" where
  "restore_global_properties [] st = st"
| "restore_global_properties ((oc, hs, hv) # rest) st =
     restore_global_properties rest
       (st\<lparr>hide_select := (hide_select st)(oc := hs),
           hide_viewport := (hide_viewport st)(oc := hv)\<rparr>)"

fun relax_global_properties ::
    "host \<Rightarrow> (ident \<times> bool \<times> bool) list \<Rightarrow> blend \<Rightarrow> exn option \<times> blend" where
  "relax_global_properties h [] st = (None, st)"
| "relax_global_properties h ((oc, hs, hv) # rest) st =
     (case raises h RelaxProperties st of
        Some e \<Rightarrow> (Some e, st)
      | None \<Rightarrow>
          relax_global_properties h rest
            (st\<lparr>hide_select := (hide_select st)(oc := False),
                hide_viewport := (hide_viewport st)(oc := False)\<rparr>))"

section \<open>The host operators\<close>

text \<open>
  What the host operators do when they finish. \<open>view_layer_add\<close> makes a new view layer
  with every collection included and no active object, and makes it the view layer of the
  window; what is selected in it is the host's choice. \<open>duplicate\<close> copies every selected object and selects the copies instead.
  \<open>join\<close> removes the selected objects it merged into another; removing an object takes
  it out of the data, of every selection and of the active slot. New objects and view
  layers get identities not in use.
\<close>

definition fresh :: "nat list \<Rightarrow> nat" where
  "fresh xs = Suc (fold max xs 0)"

fun mirror :: "collection \<Rightarrow> layer_collection" where
  "mirror (Collection p n cs) = LayerCollection (Collection p n cs) False (map mirror cs)"

definition apply_view_layer_add :: "host \<Rightarrow> blend \<Rightarrow> blend" where
  "apply_view_layer_add h st =
     (let new = fresh (window_view_layer st # view_layers st)
      in st\<lparr>view_layers := view_layers st @ [new],
            window_view_layer := new,
            layer_collections := (layer_collections st)(new := mirror (scene_collection st)),
            selected_objects := (selected_objects st)(new := new_layer_selection h st),
            active_object := (active_object st)(new := None)\<rparr>)"

definition remove_view_layer :: "nat \<Rightarrow> blend \<Rightarrow> blend" where
  "remove_view_layer vl st = st\<lparr>view_layers := removeAll vl (view_layers st)\<rparr>"

fun duplicate_objects :: "nat list \<Rightarrow> blend \<Rightarrow> nat list \<times> blend" where
  "duplicate_objects [] st = ([], st)"
| "duplicate_objects (ob # rest) st =
     (let new = fresh (objects st);
          st' = st\<lparr>objects := objects st @ [new],
                   obj_name := (obj_name st)(new := obj_name st ob @ ''.001''),
                   obj_data_name := (obj_data_name st)(new := obj_data_name st ob @ ''.001''),
                   obj_type := (obj_type st)(new := obj_type st ob),
                   users_collection := (users_collection st)(new := users_collection st ob),
                   hide_select := (hide_select st)(Ob new := hide_select st (Ob ob)),
                   hide_viewport := (hide_viewport st)(Ob new := hide_viewport st (Ob ob))\<rparr>;
          (news, st'') = duplicate_objects rest st'
      in (new # news, st''))"

definition apply_duplicate :: "blend \<Rightarrow> blend" where
  "apply_duplicate st =
     (let (news, st') = duplicate_objects (context_selected_objects st) st
      in set_selection news st')"

definition remove_object :: "nat \<Rightarrow> blend \<Rightarrow> blend" where
  "remove_object m st =
     st\<lparr>objects := removeAll m (objects st),
        selected_objects := (\<lambda>vl. removeAll m (selected_objects st vl)),
        active_object := (\<lambda>vl. if active_object st vl = Some m then None else active_object st vl)\<rparr>"

definition apply_join :: "nat list \<Rightarrow> blend \<Rightarrow> blend" where
  "apply_join survivors st =
     fold remove_object
       (filter (\<lambda>ob. ob \<notin> set survivors) (context_selected_objects st)) st"

section \<open>The export operator\<close>

text \<open>
  The three lists the innermost \<open>try\<close> block keeps for its \<open>finally\<close> clause.
\<close>

record join_state =
  joined_meshes :: "nat list"
  duplicated_meshes :: "nat list"
  abort_postjoin_meshes :: "nat list"

definition msg_use_selection :: "string \<Rightarrow> string" where
  "msg_use_selection exporter_name =
     ''Exporter '' @ sq @ exporter_name @ sq @ '' does not have a property '' @ sq @
     ''use_selection'' @ sq @ '' which is required for Quick Export Collection to work. '' @
     ''If this exporter has a different name for a property of the same concept, or doesn'' @
     sq @ ''t have that property at all, you'' @ sq @
     ''ll need to edit the code to account for it.''"

definition msg_failed_duplicate :: "host \<Rightarrow> string \<Rightarrow> nat list \<Rightarrow> string" where
  "msg_failed_duplicate h collection_name sel =
     ''Failed to duplicate meshes (as part of making a joined mesh) in collection '' @
     collection_name @ ''. Selected objects are: '' @ repr_objects h sel"

definition msg_failed_join :: "host \<Rightarrow> string \<Rightarrow> nat list \<Rightarrow> string" where
  "msg_failed_join h collection_name sel =
     ''Failed to join meshes in collection '' @ collection_name @
     ''. Selected objects are: '' @ repr_objects h sel"

definition msg_after_join :: "host \<Rightarrow> string \<Rightarrow> nat list \<Rightarrow> string" where
  "msg_after_join h collection_name sel =
     ''After join, more than one object is selected! When joining meshes in collection '' @
     collection_name @ ''. Selected objects are: '' @ repr_objects h sel"

definition msg_duplicate_joined :: "host \<Rightarrow> string \<Rightarrow> nat list \<Rightarrow> string" where
  "msg_duplicate_joined h collection_name sel =
     ''Duplicate in joined meshes list! When joining meshes in collection '' @
     collection_name @ ''. Duplicate object is: '' @ repr_objects h sel"

definition truthy :: "host \<Rightarrow> pyval \<Rightarrow> bool" where
  "truthy h v =
     (case v of
        PBool b \<Rightarrow> b
      | PStr s \<Rightarrow> s \<noteq> []
      | PFloat f \<Rightarrow> float_nonzero h f
      | PInt n \<Rightarrow> n \<noteq> 0
      | PSet xs \<Rightarrow> xs \<noteq> [])"

definition py_format :: "host \<Rightarrow> pyval \<Rightarrow> string" where
  "py_format h v = (case v of PStr s \<Rightarrow> s | _ \<Rightarrow> str_of h v)"

text \<open>
  One pass of the loop over \<open>collections_to_join\<close> is \<open>join_collection\<close>, made of the
  steps below. Each returns the exception raised, if any, and the state reached.
\<close>

definition duplicate_step :: "host \<Rightarrow> collection \<Rightarrow> blend \<Rightarrow> exn option \<times> blend" where
  "duplicate_step h c st =
     (case duplicate h st of
        Inl e \<Rightarrow> (Some e, st)
      | Inr result \<Rightarrow>
          (let st' = (if result = FINISHED then apply_duplicate st else st) in
           if result \<noteq> FINISHED then
             (Some (RuntimeError (msg_failed_duplicate h (name c) (context_selected_objects st'))),
              st')
           else (None, st')))"

definition set_active_step :: "host \<Rightarrow> blend \<Rightarrow> exn option \<times> blend" where
  "set_active_step h st =
     (case raises h SetActive st of
        Some e \<Rightarrow> (Some e, st)
      | None \<Rightarrow>
          (case context_selected_objects st of
             [] \<Rightarrow> (Some IndexError, st)
           | ob # rest \<Rightarrow>
               (None, st\<lparr>active_object :=
                           (active_object st)(window_view_layer st := Some ob)\<rparr>)))"

definition join_step :: "host \<Rightarrow> collection \<Rightarrow> blend \<Rightarrow> exn option \<times> blend" where
  "join_step h c st =
     (if length (context_selected_objects st) > 1 then
        (case join h st of
           Inl e \<Rightarrow> (Some e, st)
         | Inr (result, survivors) \<Rightarrow>
             (let st' = (if result = FINISHED then apply_join survivors st else st) in
              if result \<noteq> FINISHED then
                (Some (RuntimeError (msg_failed_join h (name c) (context_selected_objects st'))),
                 st')
              else (None, st')))
      else (None, st))"

definition rename_step ::
    "host \<Rightarrow> (string \<rightharpoonup> string) \<Rightarrow> collection \<Rightarrow> nat \<Rightarrow> blend \<Rightarrow> exn option \<times> blend" where
  "rename_step h collection_joined_mesh_names c new_joined_mesh st =
     (case raises h Rename st of
        Some e \<Rightarrow> (Some e, st)
      | None \<Rightarrow>
          (case collection_joined_mesh_names (name c) of
             None \<Rightarrow> (Some KeyError, st)
           | Some n \<Rightarrow>
               (let st1 = st\<lparr>obj_name := (obj_name st)(new_joined_mesh :=
                                   unique_name h st new_joined_mesh n)\<rparr>
                in (None, st1\<lparr>obj_data_name := (obj_data_name st1)(new_joined_mesh :=
                                   unique_data_name h st1 new_joined_mesh
                                     (obj_name st1 new_joined_mesh))\<rparr>))))"

definition join_collection ::
    "host \<Rightarrow> nat \<Rightarrow> (string \<rightharpoonup> string) \<Rightarrow> nat list \<Rightarrow> collection \<Rightarrow> join_state \<Rightarrow> blend
      \<Rightarrow> exn option \<times> join_state \<times> blend" where
  "join_collection h new_view_layer collection_joined_mesh_names hidden_objects c L st =
     (case select_included_objects_in_collection h new_view_layer c hidden_objects True st of
        (Some e, st1) \<Rightarrow> (Some e, L, st1)
      | (None, st1) \<Rightarrow>
     (if length (context_selected_objects st1) > 0 then
     (case duplicate_step h c st1 of
        (Some e, st2) \<Rightarrow> (Some e, L, st2)
      | (None, st2) \<Rightarrow>
     (let L1 = L\<lparr>duplicated_meshes := context_selected_objects st2\<rparr> in
     (case set_active_step h st2 of
        (Some e, st3) \<Rightarrow> (Some e, L1, st3)
      | (None, st3) \<Rightarrow>
     (case join_step h c st3 of
        (Some e, st4) \<Rightarrow> (Some e, L1, st4)
      | (None, st4) \<Rightarrow>
     (if length (context_selected_objects st4) \<noteq> 1 then
        (Some (RuntimeError (msg_after_join h (name c) (context_selected_objects st4))),
         L1\<lparr>abort_postjoin_meshes := context_selected_objects st4\<rparr>, st4)
      else
     (let new_joined_mesh = hd (context_selected_objects st4) in
     (case rename_step h collection_joined_mesh_names c new_joined_mesh st4 of
        (Some e, st5) \<Rightarrow> (Some e, L1, st5)
      | (None, st5) \<Rightarrow>
     (if new_joined_mesh \<in> set (joined_meshes L1) then
        (Some (RuntimeError (msg_duplicate_joined h (name c) (context_selected_objects st5))),
         L1, st5)
      else
        (None,
         L1\<lparr>joined_meshes := joined_meshes L1 @ [new_joined_mesh], duplicated_meshes := []\<rparr>,
         st5)))))))))
      else (None, L, st1)))"

fun join_collections ::
    "host \<Rightarrow> nat \<Rightarrow> (string \<rightharpoonup> string) \<Rightarrow> nat list \<Rightarrow> collection list \<Rightarrow> join_state \<Rightarrow> blend
      \<Rightarrow> exn option \<times> join_state \<times> blend" where
  "join_collections h new_view_layer collection_joined_mesh_names hidden_objects [] L st =
     (None, L, st)"
| "join_collections h new_view_layer collection_joined_mesh_names hidden_objects (c # cs) L st =
     (case join_collection h new_view_layer collection_joined_mesh_names hidden_objects c L st of
        (Some e, L', st') \<Rightarrow> (Some e, L', st')
      | (None, L', st') \<Rightarrow>
          join_collections h new_view_layer collection_joined_mesh_names hidden_objects cs L' st')"

text \<open>
  After the joins: select what the export target includes, deselect every mesh of the
  joined collections, select the joined meshes, and call the exporter. The call is
  recorded with the selection it finds.
\<close>

fun deselect_joined_collections :: "collection list \<Rightarrow> blend \<Rightarrow> exn option \<times> blend" where
  "deselect_joined_collections [] st = (None, st)"
| "deselect_joined_collections (c # cs) st =
     (case select_each (filter (\<lambda>ob. obj_type st ob = ''MESH'') (all_objects st c)) False st of
        (Some e, st') \<Rightarrow> (Some e, st')
      | (None, st') \<Rightarrow> deselect_joined_collections cs st')"

definition export_selected ::
    "host \<Rightarrow> collection \<Rightarrow> (string \<rightharpoonup> pyval) \<Rightarrow> blend \<Rightarrow> (exn + status) \<times> blend" where
  "export_selected h collection_to_export settings st =
     (let is_empty = (length (context_selected_objects st) = 0);
          st1 = st\<lparr>export_calls := export_calls st @ [(settings, context_selected_objects st)]\<rparr>
      in case export_func h settings st1 of
           Inl e \<Rightarrow> (Inl e, st1)
         | Inr result \<Rightarrow>
             (if result = FINISHED then
                (case settings ''filepath'' of
                   None \<Rightarrow> (Inl KeyError, st1)
                 | Some filepath \<Rightarrow>
                     (let msg = ''Successfully exported '' @ name collection_to_export @
                                '' to '' @ py_format h filepath
                      in if is_empty then
                           (Inr result, report ''WARNING'' (''[Export is empty!] '' @ msg) st1)
                         else (Inr result, report ''INFO'' msg st1)))
              else (Inr result, st1)))"

definition join_and_export ::
    "host \<Rightarrow> nat \<Rightarrow> collection \<Rightarrow> (string \<rightharpoonup> pyval) \<Rightarrow> (string \<rightharpoonup> string) \<Rightarrow> nat list
      \<Rightarrow> collection list \<Rightarrow> join_state \<Rightarrow> blend \<Rightarrow> (exn + status) \<times> join_state \<times> blend" where
  "join_and_export h new_view_layer collection_to_export settings collection_joined_mesh_names
       hidden_objects collections_to_join L st =
     (case join_collections h new_view_layer collection_joined_mesh_names hidden_objects
             collections_to_join L st of
        (Some e, L1, st1) \<Rightarrow> (Inl e, L1, st1)
      | (None, L1, st1) \<Rightarrow>
     (case select_included_objects_in_collection h new_view_layer collection_to_export
             hidden_objects False st1 of
        (Some e, st2) \<Rightarrow> (Inl e, L1, st2)
      | (None, st2) \<Rightarrow>
     (case raises h Deselect st2 of
        Some e \<Rightarrow> (Inl e, L1, st2)
      | None \<Rightarrow>
     (case deselect_joined_collections collections_to_join st2 of
        (Some e, st3) \<Rightarrow> (Inl e, L1, st3)
      | (None, st3) \<Rightarrow>
     (case raises h Reselect st3 of
        Some e \<Rightarrow> (Inl e, L1, st3)
      | None \<Rightarrow>
     (case select_each (joined_meshes L1) True st3 of
        (Some e, st4) \<Rightarrow> (Inl e, L1, st4)
      | (None, st4) \<Rightarrow>
          (let (r, st5) = export_selected h collection_to_export settings st4
           in (r, L1, st5))))))))"

text \<open>
  The three nested \<open>try\<close> blocks. Each function runs the body of one block and then its
  \<open>finally\<close> clause, on whatever state the body reached and whether or not it raised.
  The debug prints write to the console only and are left out.
\<close>

definition cleanup_meshes :: "join_state \<Rightarrow> blend \<Rightarrow> blend" where
  "cleanup_meshes L st =
     fold remove_object
       (joined_meshes L @ duplicated_meshes L @ abort_postjoin_meshes L) st"

definition export_with_relaxed_properties ::
    "host \<Rightarrow> nat \<Rightarrow> collection \<Rightarrow> (string \<rightharpoonup> pyval) \<Rightarrow> (string \<rightharpoonup> string) \<Rightarrow> nat list
      \<Rightarrow> collection list \<Rightarrow> (ident \<times> bool \<times> bool) list \<Rightarrow> blend \<Rightarrow> (exn + status) \<times> blend" where
  "export_with_relaxed_properties h new_view_layer collection_to_export settings
       collection_joined_mesh_names hidden_objects collections_to_join
       saved_object_properties st =
     (case relax_global_properties h saved_object_properties st of
        (Some e, st1) \<Rightarrow> (Inl e, st1)
      | (None, st1) \<Rightarrow>
          (let (r, L, st2) =
                 join_and_export h new_view_layer collection_to_export settings
                   collection_joined_mesh_names hidden_objects collections_to_join
                   \<lparr>joined_meshes = [], duplicated_meshes = [], abort_postjoin_meshes = []\<rparr> st1
           in (r, cleanup_meshes L st2)))"

definition export_in_view_layer ::
    "host \<Rightarrow> nat \<Rightarrow> collection \<Rightarrow> (string \<rightharpoonup> pyval) \<Rightarrow> string list \<Rightarrow> (string \<rightharpoonup> string)
      \<Rightarrow> nat list \<Rightarrow> collection list \<Rightarrow> (ident \<times> bool \<times> bool) list \<Rightarrow> blend
      \<Rightarrow> (exn + status) \<times> blend" where
  "export_in_view_layer h new_view_layer collection_to_export settings
       collection_names_not_exportable collection_joined_mesh_names hidden_objects
       collections_to_join saved_object_properties st =
     (case raises h MarkExcluded st of
        Some e \<Rightarrow> (Inl e, st)
      | None \<Rightarrow>
          (let st1 = st\<lparr>layer_collections := (layer_collections st)(new_view_layer :=
                          set_excluded_collections (layer_collections st new_view_layer)
                            collection_names_not_exportable collection_to_export False False)\<rparr>;
               (r, st2) =
                 export_with_relaxed_properties h new_view_layer collection_to_export settings
                   collection_joined_mesh_names hidden_objects collections_to_join
                   saved_object_properties st1
           in (r, restore_global_properties saved_object_properties st2)))"

text \<open>
  \<open>execute\<close> for the collection the menu was opened on. \<open>run_export\<close> is the part after
  the settings have been read and the exporter has passed the check for \<open>use_selection\<close>.
\<close>

definition prepare_settings ::
    "(string \<times> property) list \<Rightarrow> (string \<rightharpoonup> pyval) \<Rightarrow> (string \<rightharpoonup> pyval)" where
  "prepare_settings props settings =
     (let settings1 = settings(''use_active_collection'' := None, ''use_selection'' := None);
          settings2 = (if ''check_existing'' \<notin> dom settings1
                       then settings1(''check_existing'' \<mapsto> PBool False) else settings1);
          settings3 = (if str_in_property_list ''use_active_collection'' props
                       then settings2(''use_active_collection'' \<mapsto> PBool False) else settings2)
      in settings3(''use_selection'' \<mapsto> PBool True))"

definition run_export ::
    "host \<Rightarrow> collection \<Rightarrow> (string \<times> property) list \<Rightarrow> export_settings \<Rightarrow> blend
      \<Rightarrow> (exn + status) \<times> blend" where
  "run_export h collection_to_export props s st =
     (case s of
        (exporter_name, settings0, collection_names_not_exportable,
         collection_names_requesting_join, collection_joined_mesh_names) \<Rightarrow>
     (let settings1 = prepare_settings props settings0;
          saved_object_properties = save_global_properties st collection_to_export;
          use_visible = (case settings1 ''use_visible'' of None \<Rightarrow> False | Some v \<Rightarrow> truthy h v);
          settings = (if use_visible then settings1(''use_visible'' := None) else settings1);
          hidden_objects =
            (if use_visible
             then filter (\<lambda>ob. \<not> visible_get h st ob) (all_objects st collection_to_export)
             else []);
          collections_to_join =
            (if length collection_names_requesting_join > 0
             then find_topmost_collections collection_names_requesting_join collection_to_export
             else []);
          saved_view_layer = window_view_layer st
      in case view_layer_add h st of
           Inl e \<Rightarrow> (Inl e, st)
         | Inr result \<Rightarrow>
             (let st1 = (if result = FINISHED then apply_view_layer_add h st else st);
                  new_view_layer = window_view_layer st1
              in if new_view_layer = saved_view_layer then
                   (Inl (RuntimeError ''Failed to create a new temporary ViewLayer''), st1)
                 else
                   (let (r, st2) =
                          export_in_view_layer h new_view_layer collection_to_export settings
                            collection_names_not_exportable collection_joined_mesh_names
                            hidden_objects collections_to_join saved_object_properties st1
                    in (r, remove_view_layer new_view_layer
                             (st2\<lparr>window_view_layer := saved_view_layer\<rparr>))))))"

definition execute :: "host \<Rightarrow> collection \<Rightarrow> blend \<Rightarrow> (exn + status) \<times> blend" where
  "execute h collection_to_export st =
     (case get_export_settings h (name collection_to_export) st of
        (Inl e, st1) \<Rightarrow> (Inl e, st1)
      | (Inr None, st1) \<Rightarrow> (Inr CANCELLED, st1)
      | (Inr (Some s), st1) \<Rightarrow>
          (case map_of (EXPORTER_PROPERTIES (fbx_properties h)) (fst s) of
             None \<Rightarrow> (Inl KeyError, st1)
           | Some props \<Rightarrow>
               (if str_in_property_list ''use_selection'' props then
                  (Inr CANCELLED, report ''ERROR'' (msg_use_selection (fst s)) st1)
                else run_export h collection_to_export props s st1)))"

section \<open>Vocabulary for the layer collection tree\<close>

text \<open>
  A node of the tree is addressed by the list of child indices that leads to it from the
  root. \<open>node_at\<close> is the node at the end of a path, \<open>trail\<close> the collections met on the
  way, the root first and the node itself last.
\<close>

fun node_at :: "layer_collection \<Rightarrow> nat list \<Rightarrow> layer_collection option" where
  "node_at t [] = Some t"
| "node_at t (i # p) =
     (if i < length (lc_children t) then node_at (lc_children t ! i) p else None)"

fun trail :: "layer_collection \<Rightarrow> nat list \<Rightarrow> collection list option" where
  "trail t [] = Some [collection t]"
| "trail t (i # p) =
     (if i < length (lc_children t)
      then map_option ((#) (collection t)) (trail (lc_children t ! i) p)
      else None)"

text \<open>
  A node is within the export target when the target is on its trail (the node itself
  counts). \<open>below_target\<close> is the part of the trail after the last occurrence of the
  target, and a node is under a non-exportable collection when a name on that part, its own
  included, is in the list of non-exportable names.
\<close>

definition within_target :: "collection \<Rightarrow> collection list \<Rightarrow> bool" where
  "within_target cte cs = (\<exists>c \<in> set cs. ptr c = ptr cte)"

definition below_target :: "collection \<Rightarrow> collection list \<Rightarrow> collection list" where
  "below_target cte cs = rev (takeWhile (\<lambda>c. ptr c \<noteq> ptr cte) (rev cs))"

definition under_nonexportable :: "string list \<Rightarrow> collection \<Rightarrow> collection list \<Rightarrow> bool" where
  "under_nonexportable ns cte cs = (\<exists>c \<in> set (below_target cte cs). name c \<in> set ns)"

definition expected_exclude ::
    "string list \<Rightarrow> collection \<Rightarrow> bool \<Rightarrow> bool \<Rightarrow> collection list \<Rightarrow> bool" where
  "expected_exclude ns cte w wne cs =
     (if within_target cte cs then under_nonexportable ns cte cs
      else if w then wne \<or> (\<exists>c \<in> set (tl cs). name c \<in> set ns)
      else True)"

section \<open>Example scenes\<close>

text \<open>The hierarchy \<open>Root{B{C,D},E}\<close>.\<close>

definition example_B :: collection where
  "example_B = Collection 1 ''B'' [Collection 2 ''C'' [], Collection 3 ''D'' []]"

definition example_E :: collection where
  "example_E = Collection 4 ''E'' []"

definition example_Root :: collection where
  "example_Root = Collection 0 ''Root'' [example_B, example_E]"

text \<open>
  The layer collections of \<open>Root{A{T{X,D{Y}}},E}\<close>, every flag False. \<open>T\<close> is the export
  target of the example and \<open>D\<close> is not exportable.
\<close>

definition example_T :: collection where
  "example_T = Collection 2 ''T'' [Collection 3 ''X'' [], Collection 4 ''D'' [Collection 5 ''Y'' []]]"

definition example_layers :: layer_collection where
  "example_layers =
     LayerCollection (Collection 0 ''Root'' [Collection 1 ''A'' [example_T], Collection 6 ''E'' []]) False
       [LayerCollection (Collection 1 ''A'' [example_T]) False
          [LayerCollection example_T False
             [LayerCollection (Collection 3 ''X'' []) False [],
              LayerCollection (Collection 4 ''D'' [Collection 5 ''Y'' []]) False
                [LayerCollection (Collection 5 ''Y'' []) False []]]],
        LayerCollection (Collection 6 ''E'' []) False []]"

text \<open>
  A scene for the operator: \<open>Props\<close> holds two meshes (one of them not visible) and the
  collections \<open>Sub\<close>, with two meshes, and \<open>Lights\<close>, with one light; \<open>Other\<close> is
  empty. The configuration asks to join the meshes of \<open>Sub\<close> and of \<open>Lights\<close>, to
  export \<open>Props\<close> with visible objects only, and tries to set the arguments the operator
  keeps for itself. The example host finishes every operator, \<open>join\<close> leaves the first
  selected object, a new view layer starts with the selection of the window's view layer,
  and names are assigned as asked.
\<close>

definition example_config :: config where
  "example_config =
     \<lparr>defaults = [(''exporter'', ''fbx''), (''directory'', ''//out'')],
      sections =
        [(''Props'', [(''use_visible'', ''yes''), (''axis_up'', ''Z''), (''use_selection'', ''no''),
                     (''filepath'', ''/tmp/override.fbx''), (''filter_glob'', ''*''),
                     (''batch_mode'', ''SCENE''), (''use_active_collection'', ''yes'')]),
         (''Sub'', [(''join_meshes'', ''true''), (''joined_mesh_name'', ''SubJoined'')]),
         (''Lights'', [(''join_meshes'', ''yes'')]),
         (''Other'', [])]\<rparr>"

definition example_host :: host where
  "example_host =
     \<lparr>fbx_properties =
        [(''rna_type'', OtherProperty), (''filepath'', StringProperty),
         (''filter_glob'', StringProperty), (''use_selection'', BoolProperty),
         (''use_active_collection'', BoolProperty),
         (''batch_mode'', EnumProperty [''OFF'', ''SCENE''] False),
         (''use_visible'', BoolProperty), (''global_scale'', FloatProperty),
         (''axis_up'', EnumProperty [''X'', ''Y'', ''Z''] False)],
      read_string = (\<lambda>txt. Inr example_config),
      parse_float = (\<lambda>s. None), parse_int = (\<lambda>s. None), repr_options = concat,
      abspath = (\<lambda>p. ''/home/user'' @ drop 1 p), native_pathsep = id, normpath = id,
      isdir = (\<lambda>d. True),
      ensure_ext = (\<lambda>f e. if drop (length f - length e) f = e then f else f @ e),
      joinpath = (\<lambda>d f. d @ ''/'' @ f),
      visible_get = (\<lambda>st ob. ob \<noteq> 14),
      view_layer_add = (\<lambda>st. Inr FINISHED),
      new_layer_selection = context_selected_objects,
      duplicate = (\<lambda>st. Inr FINISHED),
      join = (\<lambda>st. Inr (FINISHED, take 1 (context_selected_objects st))),
      export_func = (\<lambda>settings st. Inr FINISHED),
      str_of = (\<lambda>v. []), float_nonzero = (\<lambda>f. True), repr_objects = (\<lambda>l. []),
      unique_name = (\<lambda>st ob n. n), unique_data_name = (\<lambda>st ob n. n),
      raises = (\<lambda>p st. None)\<rparr>"

definition example_Sub :: collection where "example_Sub = Collection 2 ''Sub'' []"
definition example_Lights :: collection where "example_Lights = Collection 3 ''Lights'' []"
definition example_Props :: collection where
  "example_Props = Collection 1 ''Props'' [example_Sub, example_Lights]"
definition example_Other :: collection where "example_Other = Collection 4 ''Other'' []"
definition example_Scene :: collection where
  "example_Scene = Collection 0 ''Scene Collection'' [example_Props, example_Other]"

definition example_blend :: blend where
  "example_blend =
     \<lparr>texts = [CONFIG_FILE_NAME \<mapsto> ''[DEFAULT]''], is_saved = True, reports = [],
      objects = [10, 11, 12, 13, 14],
      obj_name = (\<lambda>ob. ''Object''), obj_data_name = (\<lambda>ob. ''Data''),
      obj_type = (\<lambda>ob. if ob = 13 then ''LIGHT'' else ''MESH''),
      users_collection = (\<lambda>ob. if ob = 11 \<or> ob = 12 then [2] else if ob = 13 then [3] else [1]),
      hide_select = (\<lambda>i. i = Ob 11), hide_viewport = (\<lambda>i. i = Co 2),
      scene_collection = example_Scene, view_layers = [0], window_view_layer = 0,
      layer_collections = (\<lambda>vl. mirror example_Scene),
      selected_objects = (\<lambda>vl. [10]), active_object = (\<lambda>vl. None), export_calls = []\<rparr>"

text \<open>
  Two variants of the host: one whose configuration makes every collection unexportable
  by default, one whose exporter returns \<open>CANCELLED\<close>.
\<close>

definition unexportable_default_host :: host where
  "unexportable_default_host =
     example_host\<lparr>read_string :=
       (\<lambda>doc. Inr \<lparr>defaults = [(''exportable'', ''no'')], sections = []\<rparr>)\<rparr>"

definition cancelling_host :: host where
  "cancelling_host = example_host\<lparr>export_func := (\<lambda>settings st. Inr CANCELLED)\<rparr>"

section \<open>Vocabulary for the collection tree\<close>

text \<open>
  An occurrence of a collection below a collection is addressed by the list of child
  indices that leads to it. \<open>positions\<close> lists the occurrences in the order of the search,
  \<open>subtree_at\<close> is the collection at an occurrence. An occurrence is requested when the
  name of its collection is in the list, and topmost when it is requested and no
  occurrence on the way to it is.
\<close>

function positions :: "collection \<Rightarrow> nat list list" where
  "positions (Collection p n cs) =
     [] # concat (map (\<lambda>(i, c). map ((#) i) (positions c)) (zip [0..<length cs] cs))"
  by pat_completeness auto
termination
  by (relation "measure size")
     (auto dest!: set_zip_rightD simp: less_Suc_eq_le size_list_estimation')

fun subtree_at :: "collection \<Rightarrow> nat list \<Rightarrow> collection option" where
  "subtree_at c [] = Some c"
| "subtree_at c (i # p) =
     (if i < length (children c) then subtree_at (children c ! i) p else None)"

definition requested_at :: "string list \<Rightarrow> collection \<Rightarrow> nat list \<Rightarrow> bool" where
  "requested_at ns c p = (case subtree_at c p of Some a \<Rightarrow> name a \<in> set ns | None \<Rightarrow> False)"

definition topmost_positions :: "string list \<Rightarrow> collection \<Rightarrow> nat list list" where
  "topmost_positions ns c =
     filter (\<lambda>p. requested_at ns c p \<and>
                 (\<forall>q \<in> set (prefixes p). q \<noteq> p \<longrightarrow> \<not> requested_at ns c q))
       (positions c)"

text \<open>
  A hierarchy in which the collection \<open>W\<close> is linked at two places: \<open>Root{X{W},W}\<close>.
\<close>

definition example_W :: collection where "example_W = Collection 2 ''W'' []"

definition example_Shared :: collection where
  "example_Shared = Collection 0 ''Root'' [Collection 1 ''X'' [example_W], example_W]"

section \<open>Properties of the exclusion marking\<close>

lemma set_excluded_twice:
  "set_excluded_collections (set_excluded_collections t ns cte w wne) ns cte w wne =
     set_excluded_collections t ns cte w wne"
  "set_excluded_children (set_excluded_children ts ns cte w wne) ns cte w wne =
     set_excluded_children ts ns cte w wne"
proof (induction t ns cte w wne and ts ns cte w wne
    rule: set_excluded_collections_set_excluded_children.induct)
  case (1 c e cs ns cte w wne)
  then show ?case by simp
next
  case (2 ns cte w wne)
  then show ?case by simp
next
  case (3 c e cs rest ns cte w wne)
  show ?case
  proof (cases "ptr c = ptr cte")
    case True
    with 3 show ?thesis by simp
  next
    case other: False
    show ?thesis
    proof (cases w)
      case True
      with 3 other show ?thesis
        by (cases wne; cases "name c \<in> set ns"; simp)
    next
      case False
      with 3 other show ?thesis by simp
    qed
  qed
qed

text \<open>
  Claim C8. Running the exclusion marking a second time with the same export target and
  the same list of non-exportable names gives the tree the first run gave: every layer
  collection carries the same \<open>exclude\<close> flag after two runs as after one.
\<close>

theorem set_excluded_collections_idempotent:
  "set_excluded_collections
     (set_excluded_collections lc collection_names_not_exportable collection_to_export
        False False)
     collection_names_not_exportable collection_to_export False False =
   set_excluded_collections lc collection_names_not_exportable collection_to_export
     False False"
  by (rule set_excluded_twice(1))

lemma below_target_Cons_within:
  "within_target cte cs \<Longrightarrow> below_target cte (c # cs) = below_target cte cs"
  unfolding within_target_def below_target_def
  by (auto simp: takeWhile_append1)

lemma below_target_Cons_target:
  "\<not> within_target cte cs \<Longrightarrow> ptr c = ptr cte \<Longrightarrow> below_target cte (c # cs) = cs"
proof -
  assume a: "\<not> within_target cte cs" and t: "ptr c = ptr cte"
  have "takeWhile (\<lambda>c. ptr c \<noteq> ptr cte) (rev cs @ [c]) =
        rev cs @ takeWhile (\<lambda>c. ptr c \<noteq> ptr cte) [c]"
    using a by (intro takeWhile_append2) (simp add: within_target_def)
  with t show ?thesis by (simp add: below_target_def)
qed

lemma length_set_excluded_children [simp]:
  "length (set_excluded_children ts ns cte w wne) = length ts"
proof (induction ts)
  case Nil then show ?case by simp
next
  case (Cons t ts)
  then show ?case by (cases t) simp
qed

lemma nth_set_excluded_children:
  "i < length ts \<Longrightarrow>
   set_excluded_children ts ns cte w wne ! i = hd (set_excluded_children [ts ! i] ns cte w wne)"
proof (induction ts arbitrary: i)
  case Nil then show ?case by simp
next
  case (Cons t ts)
  obtain c e cs where t: "t = LayerCollection c e cs" by (cases t)
  show ?case
  proof (cases i)
    case 0 then show ?thesis by (simp add: t)
  next
    case (Suc j)
    with Cons show ?thesis by (simp add: t)
  qed
qed

lemma trail_hd: "trail t p = Some cs \<Longrightarrow> cs \<noteq> [] \<and> hd cs = collection t"
  by (cases p) (auto split: if_splits)

lemma trail_flag: "p \<noteq> [] \<Longrightarrow> trail (LayerCollection c f ts) p = trail (LayerCollection c e ts) p"
  by (cases p) auto

lemma exclude_at_path:
  assumes "trail t p = Some cs" and "p \<noteq> []" and "ptr (collection t) = ptr cte \<longrightarrow> \<not> wne"
  shows "\<exists>n'. node_at (set_excluded_collections t ns cte w wne) p = Some n' \<and>
           collection n' = last cs \<and> exclude n' = expected_exclude ns cte w wne cs"
  using assms
proof (induction p arbitrary: t w wne cs)
  case Nil
  then show ?case by simp
next
  case (Cons i p)
  obtain c e ts where t: "t = LayerCollection c e ts" by (cases t)
  from Cons.prems(1) t have i: "i < length ts" by (auto split: if_splits)
  obtain ci ei tsi where ti: "ts ! i = LayerCollection ci ei tsi" by (cases "ts ! i")
  from Cons.prems(1) t i obtain cs0 where cs0: "trail (ts ! i) p = Some cs0" and cs: "cs = c # cs0"
    by auto
  have hd0: "cs0 \<noteq> []" "hd cs0 = ci" using trail_hd[OF cs0] ti by auto
  define w' where "w' = (if ptr c = ptr cte then True else w)"
  define f where "f = (if ptr ci = ptr cte then False else if w' then wne \<or> name ci \<in> set ns else True)"
  define wi where "wi = (if ptr ci = ptr cte then True else w')"
  define wnei where "wnei = (if ptr ci = ptr cte then False else if w' then wne \<or> name ci \<in> set ns else False)"
  have child: "set_excluded_children ts ns cte w' wne ! i =
      set_excluded_collections (LayerCollection ci f tsi) ns cte wi wnei"
    using i ti by (auto simp: nth_set_excluded_children f_def wi_def wnei_def)
  have node: "node_at (set_excluded_collections t ns cte w wne) (i # p) =
      node_at (set_excluded_collections (LayerCollection ci f tsi) ns cte wi wnei) p"
    using i child by (simp add: t w'_def)
  have wne0: "ptr c = ptr cte \<Longrightarrow> \<not> wne" using Cons.prems(3) t by simp
  show ?case
  proof (cases "p = []")
    case True
    with cs0 ti have "cs0 = [ci]" by simp
    with cs have cs2: "cs = [c, ci]" by simp
    have "expected_exclude ns cte w wne cs = f"
      using wne0 unfolding cs2 expected_exclude_def f_def w'_def within_target_def under_nonexportable_def below_target_def
      by auto
    with True node cs2 show ?thesis by simp
  next
    case False
    have tr: "trail (LayerCollection ci f tsi) p = Some cs0"
      using cs0 ti trail_flag[OF False, of ci f tsi ei] by simp
    have pre: "ptr (collection (LayerCollection ci f tsi)) = ptr cte \<longrightarrow> \<not> wnei"
      by (simp add: wnei_def)
    from Cons.IH[OF tr False pre, of wi] obtain n' where
      n': "node_at (set_excluded_collections (LayerCollection ci f tsi) ns cte wi wnei) p = Some n'"
      "collection n' = last cs0" "exclude n' = expected_exclude ns cte wi wnei cs0"
      by blast
    have ci_in: "ci \<in> set cs0" using hd0 by (metis list.set_sel(1))
    have "expected_exclude ns cte wi wnei cs0 = expected_exclude ns cte w wne cs"
    proof (cases "within_target cte cs0")
      case True
      then have "within_target cte cs" by (simp add: cs within_target_def)
      with True show ?thesis
        by (simp add: expected_exclude_def under_nonexportable_def cs below_target_Cons_within)
    next
      case nw: False
      then have nci: "ptr ci \<noteq> ptr cte" using ci_in by (auto simp: within_target_def)
      have split0: "(\<exists>x \<in> set cs0. name x \<in> set ns) =
          (name ci \<in> set ns \<or> (\<exists>x \<in> set (tl cs0). name x \<in> set ns))"
        using hd0 by (cases cs0) auto
      show ?thesis
      proof (cases "ptr c = ptr cte")
        case True
        then have "within_target cte cs" by (simp add: cs within_target_def)
        with nw True nci wne0 split0 show ?thesis
          by (simp add: expected_exclude_def under_nonexportable_def cs
              below_target_Cons_target wi_def wnei_def w'_def)
      next
        case False
        with nw have "\<not> within_target cte cs" by (simp add: cs within_target_def)
        with nw False nci split0 show ?thesis
          by (auto simp: expected_exclude_def cs wi_def wnei_def w'_def)
      qed
    qed
    with n' node cs hd0 show ?thesis by simp
  qed
qed


text \<open>
  Claim C2. Take any node other than the root, at path \<open>p\<close> with trail \<open>cs\<close>. After the
  exclusion marking the node is still there with the same collection, and: when it is not
  within the export target it is excluded; when it is within the export target and no
  collection between the target and the node (the node included) is named non-exportable
  it is included; when such a collection is named non-exportable it is excluded, whether
  or not its own name is in the list. The root is never assigned.
\<close>

theorem set_excluded_collections_marks:
  assumes "trail lc p = Some cs" and "p \<noteq> []"
  shows "\<exists>n'. node_at (set_excluded_collections lc ns cte False False) p = Some n' \<and>
           collection n' = last cs \<and>
           (\<not> within_target cte cs \<longrightarrow> exclude n') \<and>
           (within_target cte cs \<and> \<not> under_nonexportable ns cte cs \<longrightarrow> \<not> exclude n') \<and>
           (within_target cte cs \<and> under_nonexportable ns cte cs \<longrightarrow> exclude n')"
proof -
  from exclude_at_path[OF assms, of cte False ns False] obtain n' where
    n': "node_at (set_excluded_collections lc ns cte False False) p = Some n'"
      "collection n' = last cs" "exclude n' = expected_exclude ns cte False False cs"
    by auto
  then show ?thesis by (auto simp: expected_exclude_def)
qed

theorem set_excluded_collections_marks_witness:
  "trail example_layers [0, 0, 1, 0] =
     Some [Collection 0 ''Root'' [Collection 1 ''A'' [example_T], Collection 6 ''E'' []],
           Collection 1 ''A'' [example_T], example_T,
           Collection 4 ''D'' [Collection 5 ''Y'' []], Collection 5 ''Y'' []] \<and>
   map_option exclude
     (node_at (set_excluded_collections example_layers [''D''] example_T False False) [0, 0, 1, 0]) =
     Some True \<and>
   map_option exclude
     (node_at (set_excluded_collections example_layers [''D''] example_T False False) [0, 0, 0]) =
     Some False \<and>
   map_option exclude
     (node_at (set_excluded_collections example_layers [''D''] example_T False False) [1]) =
     Some True"
proof -
  let ?root = "Collection 0 ''Root'' [Collection 1 ''A'' [example_T], Collection 6 ''E'' []]"
  let ?A = "Collection 1 ''A'' [example_T]"
  let ?D = "Collection 4 ''D'' [Collection 5 ''Y'' []]"
  have tY: "trail example_layers [0, 0, 1, 0] = Some [?root, ?A, example_T, ?D, Collection 5 ''Y'' []]"
    by (simp add: example_layers_def)
  have tX: "trail example_layers [0, 0, 0] = Some [?root, ?A, example_T, Collection 3 ''X'' []]"
    by (simp add: example_layers_def)
  have tE: "trail example_layers [1] = Some [?root, Collection 6 ''E'' []]"
    by (simp add: example_layers_def)
  have wY: "within_target example_T [?root, ?A, example_T, ?D, Collection 5 ''Y'' []]"
    and uY: "under_nonexportable [''D''] example_T [?root, ?A, example_T, ?D, Collection 5 ''Y'' []]"
    by (simp_all add: within_target_def under_nonexportable_def below_target_def example_T_def)
  have wX: "within_target example_T [?root, ?A, example_T, Collection 3 ''X'' []]"
    and uX: "\<not> under_nonexportable [''D''] example_T [?root, ?A, example_T, Collection 3 ''X'' []]"
    by (simp_all add: within_target_def under_nonexportable_def below_target_def example_T_def)
  have wE: "\<not> within_target example_T [?root, Collection 6 ''E'' []]"
    by (simp add: within_target_def example_T_def)
  have Y: "map_option exclude
     (node_at (set_excluded_collections example_layers [''D''] example_T False False) [0, 0, 1, 0]) = Some True"
  proof -
    have ne: "[0, 0, 1, 0] \<noteq> ([]::nat list)" by simp
    from set_excluded_collections_marks[OF tY ne, of "[''D'']" example_T] wY uY
    obtain n' where "node_at (set_excluded_collections example_layers [''D''] example_T False False) [0, 0, 1, 0] = Some n'"
      and "exclude n' = True" by blast
    then show ?thesis by (simp del: node_at.simps)
  qed
  have X: "map_option exclude
     (node_at (set_excluded_collections example_layers [''D''] example_T False False) [0, 0, 0]) = Some False"
  proof -
    have ne: "[0, 0, 0] \<noteq> ([]::nat list)" by simp
    from set_excluded_collections_marks[OF tX ne, of "[''D'']" example_T] wX uX
    obtain n' where "node_at (set_excluded_collections example_layers [''D''] example_T False False) [0, 0, 0] = Some n'"
      and "exclude n' = False" by blast
    then show ?thesis by (simp del: node_at.simps)
  qed
  have E: "map_option exclude
     (node_at (set_excluded_collections example_layers [''D''] example_T False False) [1]) = Some True"
  proof -
    have ne: "[1] \<noteq> ([]::nat list)" by simp
    from set_excluded_collections_marks[OF tE ne, of "[''D'']" example_T] wE
    obtain n' where "node_at (set_excluded_collections example_layers [''D''] example_T False False) [1] = Some n'"
      and "exclude n' = True" by blast
    then show ?thesis by (simp del: node_at.simps)
  qed
  from tY Y X E show ?thesis by blast
qed

section \<open>Properties of the join planning\<close>

lemma nodes_simp: "nodes (Collection p n cs) = Collection p n cs # concat (map nodes cs)"
proof -
  have "nodes = (\<lambda>c. c # children_recursive c)" by (rule ext) (simp add: nodes_def)
  then show ?thesis by (simp add: nodes_def)
qed

lemma nodes_self: "c \<in> set (nodes c)" by (simp add: nodes_def)

lemma nodes_trans: "a \<in> set (nodes c) \<Longrightarrow> set (nodes a) \<subseteq> set (nodes c)"
proof (induction c rule: children_recursive.induct)
  case (1 p n cs)
  show ?case
  proof (cases "a = Collection p n cs")
    case True then show ?thesis by simp
  next
    case False
    with 1(2) obtain c where c: "c \<in> set cs" "a \<in> set (nodes c)"
      by (auto simp: nodes_simp)
    with 1(1) have "set (nodes a) \<subseteq> set (nodes c)" by simp
    with c show ?thesis by (auto simp: nodes_simp)
  qed
qed

lemma children_recursive_smaller: "a \<in> set (children_recursive c) \<Longrightarrow> size a < size c"
proof (induction c rule: children_recursive.induct)
  case (1 p n cs)
  from 1(2) obtain c where c: "c \<in> set cs" "a = c \<or> a \<in> set (children_recursive c)" by auto
  with 1(1)[of c] have "size a \<le> size c" by (auto simp: less_imp_le)
  moreover have "size c < size (Collection p n cs)" using c(1)
    by (simp add: less_Suc_eq_le size_list_estimation')
  ultimately show ?case by simp
qed

lemma ftc_in: "a \<in> set (find_topmost_collections ns c) \<Longrightarrow> a \<in> set (nodes c) \<and> name a \<in> set ns"
proof (induction ns c rule: find_topmost_collections.induct)
  case (1 ns p n cs)
  show ?case
  proof (cases "n \<in> set ns")
    case True with 1(2) show ?thesis by (simp add: nodes_simp)
  next
    case False
    with 1(2) obtain c where c: "c \<in> set cs" "a \<in> set (find_topmost_collections ns c)" by auto
    with 1(1) False have "a \<in> set (nodes c) \<and> name a \<in> set ns" by simp
    with c show ?thesis by (auto simp: nodes_simp)
  qed
qed

lemma ftc_cover:
  "n \<in> set ns \<Longrightarrow> n \<in> name ` set (nodes c) \<Longrightarrow>
   \<exists>a \<in> set (find_topmost_collections ns c). n \<in> name ` set (nodes a)"
proof (induction ns c rule: find_topmost_collections.induct)
  case (1 ns p m cs)
  show ?case
  proof (cases "m \<in> set ns")
    case True with 1(3) show ?thesis by simp
  next
    case False
    with 1(2,3) obtain c where c: "c \<in> set cs" "n \<in> name ` set (nodes c)"
      by (auto simp: nodes_simp)
    with 1(1)[OF False c(1) 1(2)] False show ?thesis by auto
  qed
qed

lemma forest_unique:
  assumes tree: "\<And>c a a'. c \<in> set cs \<Longrightarrow> distinct (map name (nodes c)) \<Longrightarrow>
       a \<in> set (find_topmost_collections ns c) \<Longrightarrow> a' \<in> set (find_topmost_collections ns c) \<Longrightarrow>
       n \<in> name ` set (nodes a) \<Longrightarrow> n \<in> name ` set (nodes a') \<Longrightarrow> a = a'"
    and "distinct (map name (concat (map nodes cs)))"
    and "a \<in> set (concat (map (find_topmost_collections ns) cs))"
    and "a' \<in> set (concat (map (find_topmost_collections ns) cs))"
    and "n \<in> name ` set (nodes a)" and "n \<in> name ` set (nodes a')"
  shows "a = a'"
  using assms
proof (induction cs)
  case Nil then show ?case by simp
next
  case (Cons c cs)
  have dc: "distinct (map name (nodes c))" and dr: "distinct (map name (concat (map nodes cs)))"
    and disj: "name ` set (nodes c) \<inter> name ` set (concat (map nodes cs)) = {}"
    using Cons.prems(2) by auto
  have in_rest: "\<And>b. b \<in> set (concat (map (find_topmost_collections ns) cs)) \<Longrightarrow>
      set (nodes b) \<subseteq> set (concat (map nodes cs))"
  proof -
    fix b assume "b \<in> set (concat (map (find_topmost_collections ns) cs))"
    then obtain d where d: "d \<in> set cs" "b \<in> set (find_topmost_collections ns d)" by auto
    then have "set (nodes b) \<subseteq> set (nodes d)" using ftc_in nodes_trans by blast
    with d show "set (nodes b) \<subseteq> set (concat (map nodes cs))" by auto
  qed
  have in_head: "\<And>b. b \<in> set (find_topmost_collections ns c) \<Longrightarrow> set (nodes b) \<subseteq> set (nodes c)"
    using ftc_in nodes_trans by blast
  consider (hh) "a \<in> set (find_topmost_collections ns c)" "a' \<in> set (find_topmost_collections ns c)"
    | (rr) "a \<in> set (concat (map (find_topmost_collections ns) cs))" "a' \<in> set (concat (map (find_topmost_collections ns) cs))"
    | (hr) "a \<in> set (find_topmost_collections ns c)" "a' \<in> set (concat (map (find_topmost_collections ns) cs))"
    | (rh) "a' \<in> set (find_topmost_collections ns c)" "a \<in> set (concat (map (find_topmost_collections ns) cs))"
    using Cons.prems(3,4) by auto
  then show ?case
  proof cases
    case hh
    then show ?thesis using Cons.prems(1)[of c a a'] dc Cons.prems(5,6) by simp
  next
    case rr
    show ?thesis
    proof (rule Cons.IH[OF _ dr rr Cons.prems(5,6)])
      fix d b b'
      assume "d \<in> set cs" "distinct (map name (nodes d))"
        "b \<in> set (find_topmost_collections ns d)" "b' \<in> set (find_topmost_collections ns d)"
        "n \<in> name ` set (nodes b)" "n \<in> name ` set (nodes b')"
      then show "b = b'" using Cons.prems(1)[of d b b'] by simp
    qed
  next
    case hr
    with in_head[of a] in_rest[of a'] Cons.prems(5,6) disj show ?thesis by blast
  next
    case rh
    with in_head[of a'] in_rest[of a] Cons.prems(5,6) disj show ?thesis by blast
  qed
qed

lemma ftc_unique:
  "distinct (map name (nodes c)) \<Longrightarrow>
   a \<in> set (find_topmost_collections ns c) \<Longrightarrow> a' \<in> set (find_topmost_collections ns c) \<Longrightarrow>
   n \<in> name ` set (nodes a) \<Longrightarrow> n \<in> name ` set (nodes a') \<Longrightarrow> a = a'"
proof (induction ns c arbitrary: a a' rule: find_topmost_collections.induct)
  case (1 ns p m cs)
  show ?case
  proof (cases "m \<in> set ns")
    case True with 1(3,4) show ?thesis by simp
  next
    case False
    have d: "distinct (map name (concat (map nodes cs)))" using 1(2) by (simp add: nodes_simp)
    have ina: "a \<in> set (concat (map (find_topmost_collections ns) cs))" using 1(3) False by simp
    have ina': "a' \<in> set (concat (map (find_topmost_collections ns) cs))" using 1(4) False by simp
    show ?thesis
    proof (rule forest_unique[OF _ d ina ina' 1(5,6)])
      fix c b b'
      assume "c \<in> set cs" "distinct (map name (nodes c))"
        "b \<in> set (find_topmost_collections ns c)" "b' \<in> set (find_topmost_collections ns c)"
        "n \<in> name ` set (nodes b)" "n \<in> name ` set (nodes b')"
      then show "b = b'" using 1(1)[OF False, of c b b'] by simp
    qed
  qed
qed


lemma subtree_at_Cons:
  "subtree_at (Collection p n cs) (i # q) = (if i < length cs then subtree_at (cs ! i) q else None)"
  by simp

lemma zip_index: "(i, c) \<in> set (zip [0..<length cs] cs) \<longleftrightarrow> i < length cs \<and> c = cs ! i"
  by (force simp: in_set_zip)

lemma map_zip_index: "map (\<lambda>p. f (snd p)) (zip [0..<length cs] cs) = map f cs"
  by (rule nth_equalityI) simp_all

lemma positions_subtree: "q \<in> set (positions c) \<longleftrightarrow> subtree_at c q \<noteq> None"
proof (induction c arbitrary: q rule: positions.induct)
  case (1 p n cs)
  show ?case
  proof (cases q)
    case Nil
    then show ?thesis by simp
  next
    case (Cons i q')
    have "q \<in> set (positions (Collection p n cs)) \<longleftrightarrow>
          (\<exists>c. (i, c) \<in> set (zip [0..<length cs] cs) \<and> q' \<in> set (positions c))"
      unfolding Cons by auto
    also have "\<dots> \<longleftrightarrow> (i < length cs \<and> q' \<in> set (positions (cs ! i)))"
      by (simp add: zip_index)
    also have "\<dots> \<longleftrightarrow> (i < length cs \<and> subtree_at (cs ! i) q' \<noteq> None)"
    proof (cases "i < length cs")
      case True
      then have "(i, cs ! i) \<in> set (zip [0..<length cs] cs)" by (simp add: zip_index)
      from 1[OF this refl, of q'] True show ?thesis by simp
    qed simp
    finally show ?thesis unfolding Cons by simp
  qed
qed

lemma subtree_at_prefix:
  "subtree_at c p \<noteq> None \<Longrightarrow> prefix q p \<Longrightarrow> subtree_at c q \<noteq> None"
proof (induction q arbitrary: c p)
  case Nil
  then show ?case by simp
next
  case (Cons i q)
  from Cons.prems(2) obtain p' where p: "p = i # p'" "prefix q p'"
    by (cases p) auto
  with Cons.prems(1) have "i < length (children c)" "subtree_at (children c ! i) p' \<noteq> None"
    by (auto split: if_splits)
  with Cons.IH[OF _ p(2)] show ?case by simp
qed

lemma subtree_at_nodes: "subtree_at c p = Some a \<Longrightarrow> a \<in> set (nodes c)"
proof (induction p arbitrary: c)
  case Nil
  then show ?case by (simp add: nodes_self)
next
  case (Cons i p)
  obtain pt n cs where c: "c = Collection pt n cs" by (cases c)
  from Cons.prems c have i: "i < length cs" and s: "subtree_at (cs ! i) p = Some a"
    by (auto split: if_splits)
  from Cons.IH[OF s] have "a \<in> set (nodes (cs ! i))" .
  with i show ?case unfolding c by (auto simp: nodes_simp)
qed

lemma nodes_subtree_at: "a \<in> set (nodes c) \<Longrightarrow> \<exists>p. subtree_at c p = Some a"
proof (induction c rule: children_recursive.induct)
  case (1 pt n cs)
  show ?case
  proof (cases "a = Collection pt n cs")
    case True
    then have "subtree_at (Collection pt n cs) [] = Some a" by simp
    then show ?thesis ..
  next
    case False
    with 1(2) obtain c where c: "c \<in> set cs" "a \<in> set (nodes c)"
      by (auto simp: nodes_simp)
    from 1(1)[OF c] obtain p where p: "subtree_at c p = Some a" ..
    from c(1) obtain i where i: "i < length cs" "cs ! i = c" by (auto simp: in_set_conv_nth)
    with p have "subtree_at (Collection pt n cs) (i # p) = Some a" by simp
    then show ?thesis ..
  qed
qed

lemma requested_at_Nil: "requested_at ns c [] \<longleftrightarrow> name c \<in> set ns"
  by (simp add: requested_at_def)

lemma requested_at_Cons:
  "i < length cs \<Longrightarrow> requested_at ns (Collection p n cs) (i # q) = requested_at ns (cs ! i) q"
  by (simp add: requested_at_def)

definition topmost_at :: "string list \<Rightarrow> collection \<Rightarrow> nat list \<Rightarrow> bool" where
  "topmost_at ns c p \<longleftrightarrow>
     requested_at ns c p \<and> (\<forall>q \<in> set (prefixes p). q \<noteq> p \<longrightarrow> \<not> requested_at ns c q)"

lemma topmost_positions_alt: "topmost_positions ns c = filter (topmost_at ns c) (positions c)"
  by (simp add: topmost_positions_def topmost_at_def[abs_def])

lemma topmost_at_Cons:
  assumes "i < length cs"
  shows "topmost_at ns (Collection p n cs) (i # q) \<longleftrightarrow> n \<notin> set ns \<and> topmost_at ns (cs ! i) q"
  using assms by (auto simp: topmost_at_def requested_at_Cons requested_at_Nil)

lemma topmost_positions_eq:
  "map (subtree_at c) (topmost_positions ns c) = map Some (find_topmost_collections ns c)"
proof (induction ns c rule: find_topmost_collections.induct)
  case (1 ns p n cs)
  let ?c = "Collection p n cs"
  let ?z = "zip [0..<length cs] cs"
  have z: "\<And>i c. (i, c) \<in> set ?z \<Longrightarrow> i < length cs \<and> c = cs ! i" by (simp add: zip_index)
  show ?case
  proof (cases "n \<in> set ns")
    case True
    have "filter (topmost_at ns ?c) (concat (map (\<lambda>(i, c). map ((#) i) (positions c)) ?z)) = []"
      using True z by (auto simp: filter_empty_conv topmost_at_Cons)
    moreover have "topmost_at ns ?c []" using True by (simp add: topmost_at_def requested_at_Nil)
    ultimately have "topmost_positions ns ?c = [[]]" by (simp add: topmost_positions_alt)
    with True show ?thesis by simp
  next
    case False
    have n: "\<not> topmost_at ns ?c []" using False by (simp add: topmost_at_def requested_at_Nil)
    have "topmost_positions ns ?c =
          concat (map (\<lambda>(i, c). filter (topmost_at ns ?c) (map ((#) i) (positions c))) ?z)"
      using n by (simp add: topmost_positions_alt filter_concat comp_def case_prod_unfold)
    also have "\<dots> = concat (map (\<lambda>(i, c). map ((#) i) (topmost_positions ns c)) ?z)"
    proof -
      have "filter (topmost_at ns ?c) (map ((#) i) (positions c)) =
            map ((#) i) (topmost_positions ns c)" if "(i, c) \<in> set ?z" for i c
      proof -
        from z[OF that] have i: "i < length cs" "c = cs ! i" by simp_all
        show ?thesis
          unfolding filter_map comp_def topmost_positions_alt
          using topmost_at_Cons[OF i(1), of ns p n] False i(2) by simp
      qed
      then show ?thesis by (intro arg_cong[of _ _ concat] map_cong) auto
    qed
    finally have tp: "topmost_positions ns ?c =
        concat (map (\<lambda>(i, c). map ((#) i) (topmost_positions ns c)) ?z)" .
    have "map (subtree_at ?c) (topmost_positions ns ?c) =
          concat (map (\<lambda>(i, c). map (subtree_at c) (topmost_positions ns c)) ?z)"
    proof -
      have e: "map (map (subtree_at ?c)) (map (\<lambda>(i, c). map ((#) i) (topmost_positions ns c)) ?z) =
            map (\<lambda>(i, c). map (subtree_at c) (topmost_positions ns c)) ?z"
        unfolding map_map
      proof (rule map_cong[OF refl])
        fix x assume x: "x \<in> set ?z"
        obtain i c where ic: "x = (i, c)" by (cases x)
        from z[of i c] x ic have "i < length cs" "c = cs ! i" by simp_all
        then show "(map (subtree_at ?c) \<circ> (\<lambda>(i, c). map ((#) i) (topmost_positions ns c))) x =
                   (case x of (i, c) \<Rightarrow> map (subtree_at c) (topmost_positions ns c))"
          unfolding ic by simp
      qed
      have "map (subtree_at ?c) (topmost_positions ns ?c) =
            concat (map (map (subtree_at ?c))
              (map (\<lambda>(i, c). map ((#) i) (topmost_positions ns c)) ?z))"
        unfolding tp by (rule map_concat)
      also have "\<dots> = concat (map (\<lambda>(i, c). map (subtree_at c) (topmost_positions ns c)) ?z)"
        by (rule arg_cong[OF e])
      finally show ?thesis .
    qed
    also have "\<dots> = concat (map (\<lambda>(i, c). map Some (find_topmost_collections ns c)) ?z)"
    proof -
      have "map (subtree_at c) (topmost_positions ns c) = map Some (find_topmost_collections ns c)"
        if "(i, c) \<in> set ?z" for i c
        using 1[OF False] that z[OF that] by simp
      then show ?thesis by (intro arg_cong[of _ _ concat] map_cong) auto
    qed
    also have "\<dots> = concat (map (\<lambda>c. map Some (find_topmost_collections ns c)) cs)"
      using map_zip_index[of "\<lambda>c. map Some (find_topmost_collections ns c)" cs]
      by (simp add: case_prod_unfold)
    finally show ?thesis using False by (simp add: map_concat comp_def)
  qed
qed

lemma topmost_cover:
  assumes "requested_at ns c p"
  shows "\<exists>!q. q \<in> set (topmost_positions ns c) \<and> prefix q p"
proof -
  define k where "k = (LEAST k. requested_at ns c (take k p))"
  have ex: "requested_at ns c (take (length p) p)" using assms by simp
  have rk: "requested_at ns c (take k p)" unfolding k_def using ex by (rule LeastI)
  have kl: "k \<le> length p" unfolding k_def using ex by (rule Least_le)
  have least: "\<not> requested_at ns c (take j p)" if "j < k" for j
    using that not_less_Least unfolding k_def by blast
  have top: "topmost_at ns c (take k p)"
    unfolding topmost_at_def
  proof (intro conjI ballI impI)
    show "requested_at ns c (take k p)" by (rule rk)
  next
    fix q assume "q \<in> set (prefixes (take k p))" "q \<noteq> take k p"
    then have q: "prefix q (take k p)" "q \<noteq> take k p" by (simp_all add: in_set_prefixes)
    then have "length q < k" using kl
      by (metis append_eq_conv_conj length_take min.absorb2 nat_less_le prefix_def
          prefix_length_le take_all_iff take_take)
    moreover have "q = take (length q) p" using q(1)
      by (metis append_eq_conv_conj prefix_def take_take min.absorb1 prefix_length_le length_take
          kl min.absorb2)
    ultimately show "\<not> requested_at ns c q" using least by metis
  qed
  from rk have "subtree_at c (take k p) \<noteq> None" by (auto simp: requested_at_def split: option.splits)
  then have pos: "take k p \<in> set (positions c)" by (simp add: positions_subtree)
  show ?thesis
  proof (rule ex1I[of _ "take k p"])
    show "take k p \<in> set (topmost_positions ns c) \<and> prefix (take k p) p"
      using top pos by (simp add: topmost_positions_alt take_is_prefix)
  next
    fix q assume q: "q \<in> set (topmost_positions ns c) \<and> prefix q p"
    then have tq: "topmost_at ns c q" by (simp add: topmost_positions_alt)
    from q take_is_prefix[of k p] have "prefix q (take k p) \<or> prefix (take k p) q"
      using prefix_same_cases by blast
    then show "q = take k p"
    proof
      assume "prefix q (take k p)"
      with top tq show ?thesis by (auto simp: topmost_at_def in_set_prefixes)
    next
      assume "prefix (take k p) q"
      with top tq show ?thesis by (auto simp: topmost_at_def in_set_prefixes)
    qed
  qed
qed

lemma topmost_separate:
  "p \<in> set (topmost_positions ns c) \<Longrightarrow> q \<in> set (topmost_positions ns c) \<Longrightarrow>
   prefix p q \<Longrightarrow> p = q"
  by (auto simp: topmost_positions_def in_set_prefixes)

text \<open>
  Claim C3, as the code has it. An occurrence is a place in the hierarchy below the export
  target; a collection linked at two places has two occurrences.

  For every target and every list of requested names, with no assumption on the
  hierarchy: the collections returned by \<open>find_topmost_collections\<close> are, in the order of
  the search, the collections at the topmost requested occurrences; no topmost occurrence
  lies on the way to another; every requested occurrence has exactly one topmost
  occurrence on the way to it (itself included); every returned collection is a collection
  of the target's subtree with a requested name; every requested name that occurs in the
  target's subtree is the name of a collection in the subtree of some returned collection;
  and a name that does not occur in the target's subtree is the name of no collection in
  the subtree of a returned collection.

  Where the collections of the target's subtree have distinct names (no collection is
  linked at two places), no returned collection lies below another returned one, and every
  requested name that occurs in the target's subtree is covered by exactly one returned
  collection.

  On \<open>Root{B{C,D},E}\<close> with the requested names \<open>B\<close> and \<open>E\<close> the result from \<open>Root\<close>
  is \<open>[B, E]\<close> and from \<open>B\<close> it is \<open>[B]\<close>.
\<close>

theorem find_topmost_collections_cover:
  "map Some (find_topmost_collections ns cte) = map (subtree_at cte) (topmost_positions ns cte) \<and>
   (\<forall>p \<in> set (topmost_positions ns cte). \<forall>q \<in> set (topmost_positions ns cte).
      prefix p q \<longrightarrow> p = q) \<and>
   (\<forall>p. requested_at ns cte p \<longrightarrow>
      (\<exists>!q. q \<in> set (topmost_positions ns cte) \<and> prefix q p)) \<and>
   (\<forall>a \<in> set (find_topmost_collections ns cte). a \<in> set (nodes cte) \<and> name a \<in> set ns) \<and>
   (\<forall>n \<in> set ns. n \<in> name ` set (nodes cte) \<longrightarrow>
      (\<exists>a \<in> set (find_topmost_collections ns cte). n \<in> name ` set (nodes a))) \<and>
   (\<forall>n. n \<notin> name ` set (nodes cte) \<longrightarrow>
      (\<forall>a \<in> set (find_topmost_collections ns cte). n \<notin> name ` set (nodes a))) \<and>
   (distinct (map name (nodes cte)) \<longrightarrow>
      (\<forall>a \<in> set (find_topmost_collections ns cte).
         \<forall>b \<in> set (find_topmost_collections ns cte). b \<notin> set (children_recursive a)) \<and>
      (\<forall>n \<in> set ns. n \<in> name ` set (nodes cte) \<longrightarrow>
         (\<exists>!a. a \<in> set (find_topmost_collections ns cte) \<and> n \<in> name ` set (nodes a)))) \<and>
   find_topmost_collections [''B'', ''E''] example_Root = [example_B, example_E] \<and>
   find_topmost_collections [''B'', ''E''] example_B = [example_B]"
proof (intro conjI ballI impI allI)
  show "map Some (find_topmost_collections ns cte) = map (subtree_at cte) (topmost_positions ns cte)"
    by (rule topmost_positions_eq[symmetric])
next
  fix p q
  assume "p \<in> set (topmost_positions ns cte)" "q \<in> set (topmost_positions ns cte)" "prefix p q"
  then show "p = q" by (rule topmost_separate)
next
  fix p assume "requested_at ns cte p"
  then show "\<exists>!q. q \<in> set (topmost_positions ns cte) \<and> prefix q p" by (rule topmost_cover)
next
  fix a assume "a \<in> set (find_topmost_collections ns cte)"
  then show "a \<in> set (nodes cte)" "name a \<in> set ns" using ftc_in by blast+
next
  fix n assume "n \<in> set ns" "n \<in> name ` set (nodes cte)"
  then show "\<exists>a \<in> set (find_topmost_collections ns cte). n \<in> name ` set (nodes a)"
    by (rule ftc_cover)
next
  fix n a
  assume n: "n \<notin> name ` set (nodes cte)" and a: "a \<in> set (find_topmost_collections ns cte)"
  from a have "a \<in> set (nodes cte)" using ftc_in by blast
  then have "set (nodes a) \<subseteq> set (nodes cte)" by (rule nodes_trans)
  with n show "n \<notin> name ` set (nodes a)" by blast
next
  fix a b
  assume d: "distinct (map name (nodes cte))"
    and a: "a \<in> set (find_topmost_collections ns cte)"
    and b: "b \<in> set (find_topmost_collections ns cte)"
  show "b \<notin> set (children_recursive a)"
  proof
    assume ba: "b \<in> set (children_recursive a)"
    then have "name b \<in> name ` set (nodes a)" by (simp add: nodes_def)
    moreover have "name b \<in> name ` set (nodes b)" by (simp add: nodes_def)
    ultimately have "a = b" using ftc_unique[OF d a b] by blast
    with ba children_recursive_smaller[of b a] show False by simp
  qed
next
  fix n
  assume d: "distinct (map name (nodes cte))"
    and n: "n \<in> set ns" "n \<in> name ` set (nodes cte)"
  from ftc_cover[OF n] obtain a where
    a: "a \<in> set (find_topmost_collections ns cte)" "n \<in> name ` set (nodes a)"
    by blast
  show "\<exists>!a. a \<in> set (find_topmost_collections ns cte) \<and> n \<in> name ` set (nodes a)"
  proof (rule ex1I[of _ a])
    show "a \<in> set (find_topmost_collections ns cte) \<and> n \<in> name ` set (nodes a)"
      using a by simp
  next
    fix a'
    assume "a' \<in> set (find_topmost_collections ns cte) \<and> n \<in> name ` set (nodes a')"
    then show "a' = a" using ftc_unique[OF d _ a(1) _ a(2)] by blast
  qed
next
  show "find_topmost_collections [''B'', ''E''] example_Root = [example_B, example_E]"
    by (simp add: example_Root_def example_B_def example_E_def)
next
  show "find_topmost_collections [''B'', ''E''] example_B = [example_B]"
    by (simp add: example_B_def)
qed

theorem find_topmost_collections_cover_witness:
  "find_topmost_collections [''B'', ''D'', ''E'', ''Z''] example_Root = [example_B, example_E] \<and>
   topmost_positions [''B'', ''D'', ''E'', ''Z''] example_Root = [[0], [1]] \<and>
   requested_at [''B'', ''D'', ''E'', ''Z''] example_Root [0, 1] \<and>
   (\<exists>!q. q \<in> set (topmost_positions [''B'', ''D'', ''E'', ''Z''] example_Root) \<and> prefix q [0, 1]) \<and>
   ''Z'' \<notin> name ` set (nodes example_B) \<and> ''Z'' \<notin> name ` set (nodes example_E) \<and>
   distinct (map name (nodes example_Root)) \<and>
   example_E \<notin> set (children_recursive example_B) \<and>
   (\<exists>!a. a \<in> set (find_topmost_collections [''B'', ''D'', ''E'', ''Z''] example_Root) \<and>
       ''B'' \<in> name ` set (nodes a))"
proof -
  let ?ns = "[''B'', ''D'', ''E'', ''Z'']"
  note t = find_topmost_collections_cover[of ?ns example_Root]
  have r: "find_topmost_collections ?ns example_Root = [example_B, example_E]"
    by (simp add: example_Root_def example_B_def example_E_def)
  have tp: "topmost_positions ?ns example_Root = [[0], [1]]"
    by (simp add: topmost_positions_def requested_at_def example_Root_def example_B_def
        example_E_def upt_rec)
  have rq: "requested_at ?ns example_Root [0, 1]"
    by (simp add: requested_at_def example_Root_def example_B_def)
  have d: "distinct (map name (nodes example_Root))"
    by (simp add: nodes_def example_Root_def example_B_def example_E_def)
  have z: "''Z'' \<notin> name ` set (nodes example_Root)"
    by (simp add: nodes_def example_Root_def example_B_def example_E_def)
  have n: "''B'' \<in> name ` set (nodes example_Root)"
    by (simp add: nodes_def example_Root_def example_B_def example_E_def)
  note cover = t[THEN conjunct2, THEN conjunct2, THEN conjunct1, rule_format]
  note outside = t[THEN conjunct2, THEN conjunct2, THEN conjunct2, THEN conjunct2,
      THEN conjunct2, THEN conjunct1, rule_format]
  note tree = t[THEN conjunct2, THEN conjunct2, THEN conjunct2, THEN conjunct2,
      THEN conjunct2, THEN conjunct2, THEN conjunct1, rule_format, OF d]
  have 1: "\<exists>!q. q \<in> set (topmost_positions ?ns example_Root) \<and> prefix q [0, 1]"
    using rq by (rule cover)
  have 2: "''Z'' \<notin> name ` set (nodes example_B)" "''Z'' \<notin> name ` set (nodes example_E)"
    using outside[OF z, of example_B] outside[OF z, of example_E] by (simp_all add: r)
  have 3: "example_E \<notin> set (children_recursive example_B)"
    using tree[THEN conjunct1, rule_format, of example_B example_E] by (simp add: r)
  have "''B'' \<in> set ?ns" by simp
  then have 4: "\<exists>!a. a \<in> set (find_topmost_collections ?ns example_Root) \<and>
           ''B'' \<in> name ` set (nodes a)"
    using n by (rule tree[THEN conjunct2, rule_format])
  from r tp rq 1 2 d 3 4 show ?thesis by (intro conjI)
qed

text \<open>
  The claim as stated fails in two ways. A requested name outside the export target is
  covered by no returned collection: from \<open>B\<close> the name \<open>E\<close> is requested and no
  returned collection contains it. And where a collection is linked at two places, a
  returned collection can lie below another returned one: in \<open>Root{X{W},W}\<close> with the
  requested names \<open>X\<close> and \<open>W\<close> the result is \<open>[X, W]\<close>.
\<close>

theorem find_topmost_collections_cover_counterexample:
  "find_topmost_collections [''B'', ''E''] example_B = [example_B] \<and>
   ''E'' \<notin> name ` set (nodes example_B) \<and>
   \<not> (\<exists>a. a \<in> set (find_topmost_collections [''B'', ''E''] example_B) \<and>
          ''E'' \<in> name ` set (nodes a)) \<and>
   find_topmost_collections [''X'', ''W''] example_Shared =
     [Collection 1 ''X'' [example_W], example_W] \<and>
   example_W \<in> set (children_recursive (Collection 1 ''X'' [example_W]))"
  by (simp add: example_B_def example_Shared_def example_W_def nodes_def)

section \<open>Properties of the exporter registry\<close>

lemma get_properties_for_op_skips:
  "(k, v) \<in> set (get_properties_for_op l) \<Longrightarrow>
   k \<notin> {''rna_type'', ''filepath'', ''filter_glob'', ''use_active_collection'',
         ''use_selection'', ''batch_mode''}"
  by (auto simp: get_properties_for_op_def)

lemma str_in_property_list_False: "\<not> str_in_property_list s l"
  by (auto simp: str_in_property_list_def)

lemmas example_defs = example_host_def example_blend_def example_config_def example_Props_def
  example_Sub_def example_Lights_def example_Other_def example_Scene_def

lemmas settings_defs = get_export_settings_def load_config_def ensure_section_def
  has_section_def add_section_def empty_config_def getboolean_def getfloat_def getint_def
  cfg_get_def cfg_raw_def cfg_map_def match_key_def MAX_INTERPOLATION_DEPTH_def
  EXPORTERS_def EXPORTER_PROPERTIES_def get_properties_for_op_def
  normalize_export_dir_def bs_def sq_def dq_def nl_def CONFIG_FILE_NAME_def BOOLEAN_STATES_def
  resolve_export_settings_def get_exporter_args_from_config_def read_property_def
  sanitize_filename_def isspace_def lower_def lower_char_def upper_chars_def lower_chars_def
  report_def

lemmas operator_defs = execute_def run_export_def prepare_settings_def
  str_in_property_list_def truthy_def save_global_properties_def all_objects_def nodes_def
  export_in_view_layer_def export_with_relaxed_properties_def join_and_export_def
  select_included_objects_in_collection_def view_layer_objects_def set_selection_def
  context_selected_objects_def select_set_def export_selected_def cleanup_meshes_def
  remove_view_layer_def apply_view_layer_add_def fresh_def join_collection_def
  duplicate_step_def join_step_def set_active_step_def rename_step_def apply_duplicate_def
  apply_join_def remove_object_def py_format_def



lemma EXPORTER_PROPERTIES_lookup:
  "map_of (EXPORTER_PROPERTIES fbx) exporter_name = Some props \<Longrightarrow>
   exporter_name = ''fbx'' \<and> props = get_properties_for_op fbx"
  by (auto simp: EXPORTER_PROPERTIES_def EXPORTERS_def split: if_splits)

text \<open>
  Claim C10. For every exporter of the registry the check
  \<open>'use_selection' in EXPORTER_PROPERTIES[exporter_name]\<close> is False: the list holds pairs,
  and no pair has the name \<open>use_selection\<close> either, since \<open>get_properties_for_op\<close> skips
  it. So \<open>execute\<close> never takes the branch that reports the missing property: it is equal
  to the operator without that branch.
\<close>

theorem use_selection_error_unreachable:
  assumes "map_of (EXPORTER_PROPERTIES (fbx_properties h)) exporter_name = Some props"
  shows "\<not> str_in_property_list ''use_selection'' props \<and>
         ''use_selection'' \<notin> fst ` set props \<and>
         execute h collection_to_export st =
           (case get_export_settings h (name collection_to_export) st of
              (Inl e, st1) \<Rightarrow> (Inl e, st1)
            | (Inr None, st1) \<Rightarrow> (Inr CANCELLED, st1)
            | (Inr (Some s), st1) \<Rightarrow>
                (case map_of (EXPORTER_PROPERTIES (fbx_properties h)) (fst s) of
                   None \<Rightarrow> (Inl KeyError, st1)
                 | Some props \<Rightarrow> run_export h collection_to_export props s st1))"
proof (intro conjI)
  show "\<not> str_in_property_list ''use_selection'' props" by (rule str_in_property_list_False)
  show "''use_selection'' \<notin> fst ` set props"
    using EXPORTER_PROPERTIES_lookup[OF assms] get_properties_for_op_skips by fastforce
  show "execute h collection_to_export st =
           (case get_export_settings h (name collection_to_export) st of
              (Inl e, st1) \<Rightarrow> (Inl e, st1)
            | (Inr None, st1) \<Rightarrow> (Inr CANCELLED, st1)
            | (Inr (Some s), st1) \<Rightarrow>
                (case map_of (EXPORTER_PROPERTIES (fbx_properties h)) (fst s) of
                   None \<Rightarrow> (Inl KeyError, st1)
                 | Some props \<Rightarrow> run_export h collection_to_export props s st1))"
    by (simp add: execute_def str_in_property_list_False split: prod.splits sum.splits option.splits)
qed

theorem use_selection_error_unreachable_witness:
  "map_of (EXPORTER_PROPERTIES (fbx_properties example_host)) ''fbx'' =
     Some (get_properties_for_op (fbx_properties example_host)) \<and>
   (''use_selection'', BoolProperty) \<in> set (fbx_properties example_host) \<and>
   \<not> str_in_property_list ''use_selection''
       (get_properties_for_op (fbx_properties example_host)) \<and>
   ''use_selection'' \<notin> fst ` set (get_properties_for_op (fbx_properties example_host))"
proof -
  have m: "map_of (EXPORTER_PROPERTIES (fbx_properties example_host)) ''fbx'' =
     Some (get_properties_for_op (fbx_properties example_host))"
    by (simp add: EXPORTER_PROPERTIES_def EXPORTERS_def)
  have p: "(''use_selection'', BoolProperty) \<in> set (fbx_properties example_host)"
    by (simp add: example_host_def)
  from use_selection_error_unreachable[OF m] m p show ?thesis by blast
qed

end
